theory Spec2Isabelle
  imports Complex_Main "HOL-Library.Word" "HOL-Library.Sublist"
begin

section \<open>Python values, strings and exceptions\<close>

text \<open>
  The program is \<^verbatim>\<open>src/apple_music_discord/main.py\<close>. A Python \<^verbatim>\<open>str\<close> is modelled as a
  \<^typ>\<open>string\<close> whose characters stand for the code points below 256, a Python
  \<^verbatim>\<open>float\<close> as the \<^typ>\<open>real\<close> that a finite double is (comparisons are exact on
  doubles; the one rounding operation of the program, the subtraction of line 406, is a
  parameter; \<^verbatim>\<open>nan\<close> and the infinities are not values of the model), a Python \<^verbatim>\<open>int\<close> as
  an \<^typ>\<open>int\<close> and \<^verbatim>\<open>bytes\<close> as a list of 8-bit words.
\<close>

type_synonym byte = "8 word"

text \<open>
  The exception classes the program raises or catches. \<open>JSONDecodeError\<close> and
  \<open>UnicodeDecodeError\<close> are subclasses of Python's \<open>ValueError\<close>, but a plain
  \<open>ValueError\<close> is an instance of neither; \<open>RecursionError\<close> is a \<open>RuntimeError\<close> that
  the library raises.
\<close>

datatype error =
    ValueError string
  | RuntimeError string
  | OSError
  | StructError
  | JSONDecodeError
  | UnicodeDecodeError
  | AttributeError
  | TypeError
  | HTTPError
  | RecursionError

text \<open>
  The values \<^verbatim>\<open>json.loads\<close> produces and \<^verbatim>\<open>json.dumps\<close> accepts; \<open>JNull\<close> is Python's
  \<^verbatim>\<open>None\<close>, a \<open>JDict\<close> lists the items of a \<^verbatim>\<open>dict\<close> (distinct keys, insertion order).
\<close>

datatype json =
    JNull
  | JBool bool
  | JInt int
  | JFloat real
  | JStr string
  | JList "json list"
  | JDict "(string \<times> json) list"

text \<open>Python's truth value of an object (\<^verbatim>\<open>if x:\<close>, \<^verbatim>\<open>x and y\<close>, \<^verbatim>\<open>x or y\<close>).\<close>

fun truthy :: "json \<Rightarrow> bool" where
  "truthy JNull = False"
| "truthy (JBool b) = b"
| "truthy (JInt i) = (i \<noteq> 0)"
| "truthy (JFloat r) = (r \<noteq> 0)"
| "truthy (JStr s) = (s \<noteq> [])"
| "truthy (JList xs) = (xs \<noteq> [])"
| "truthy (JDict kvs) = (kvs \<noteq> [])"

text \<open>\<^verbatim>\<open>x.get(key)\<close>: a \<^verbatim>\<open>dict\<close> answers (\<^verbatim>\<open>None\<close> when the key is absent), any other
  JSON value has no attribute \<^verbatim>\<open>get\<close>.\<close>

fun py_get :: "json \<Rightarrow> string \<Rightarrow> error + json" where
  "py_get (JDict kvs) k = Inr (case map_of kvs k of None \<Rightarrow> JNull | Some v \<Rightarrow> v)"
| "py_get _ k = Inl AttributeError"

text \<open>\<^verbatim>\<open>x.get(key, default)\<close>.\<close>

fun py_get_default :: "json \<Rightarrow> string \<Rightarrow> json \<Rightarrow> error + json" where
  "py_get_default (JDict kvs) k d = Inr (case map_of kvs k of None \<Rightarrow> d | Some v \<Rightarrow> v)"
| "py_get_default _ k d = Inl AttributeError"

text \<open>\<^verbatim>\<open>str.isspace\<close> on one code point below 256: TAB, LF, VT, FF, CR, FS, GS, RS, US,
  SPACE, NEL and NBSP.\<close>

definition is_space :: "char \<Rightarrow> bool" where
  "is_space c = (of_char c \<in> {9, 10, 11, 12, 13, 28, 29, 30, 31, 32, 133, 160 :: nat})"

text \<open>\<^verbatim>\<open>str.strip()\<close>: whitespace is removed at both ends.\<close>

definition strip :: "string \<Rightarrow> string" where
  "strip s = rev (dropWhile is_space (rev (dropWhile is_space s)))"

text \<open>\<^verbatim>\<open>str.lower()\<close> on code points below 256: A-Z and the Latin-1 capitals
  (all of 192..222 but the multiplication sign 215) move up by 32.\<close>

definition lower_char :: "char \<Rightarrow> char" where
  "lower_char c =
     (let n = (of_char c :: nat)
      in if (65 \<le> n \<and> n \<le> 90) \<or> (192 \<le> n \<and> n \<le> 222 \<and> n \<noteq> 215)
         then char_of (n + 32) else c)"

definition lower :: "string \<Rightarrow> string" where
  "lower s = map lower_char s"

text \<open>\<^verbatim>\<open>a in b\<close> on strings: \<open>a\<close> occurs in \<open>b\<close> as a contiguous substring.\<close>

fun str_in :: "string \<Rightarrow> string \<Rightarrow> bool" where
  "str_in a [] = (a = [])"
| "str_in a (c # cs) = (prefix a (c # cs) \<or> str_in a cs)"

text \<open>\<^verbatim>\<open>s.replace(old, new)\<close> for a non-empty \<open>old\<close>: every occurrence, left to right,
  without overlap.\<close>

function replace :: "string \<Rightarrow> string \<Rightarrow> string \<Rightarrow> string" where
  "replace old new [] = []"
| "replace old new (c # cs) =
     (if old \<noteq> [] \<and> prefix old (c # cs)
      then new @ replace old new (drop (length old) (c # cs))
      else c # replace old new cs)"
  by pat_completeness auto
termination
  by (relation "measure (\<lambda>(old, new, s). length s)") (auto simp: Suc_le_eq)

text \<open>\<^verbatim>\<open>int(x)\<close> of a float: truncation towards zero.\<close>

definition py_int :: "real \<Rightarrow> int" where
  "py_int x = (if 0 \<le> x then \<lfloor>x\<rfloor> else \<lceil>x\<rceil>)"

section \<open>SongData\<close>

record SongData =
  title :: string
  artist :: string
  album :: string
  duration :: real
  position :: real
  url :: "string option"

text \<open>\<^verbatim>\<open>SongData.__post_init__\<close> (lines 26-39): the dataclass constructor stores the
  fields and runs it; the result is the object as constructed, or the exception.\<close>

definition post_init :: "SongData \<Rightarrow> error + SongData" where
  "post_init self =
     (if duration self < 0 then Inl (ValueError ''Duration must be non-negative'')
      else if position self < 0 then Inl (ValueError ''Position must be non-negative'')
      else
        let self = (if position self > duration self
                    then self\<lparr>position := duration self\<rparr> else self)
        in if strip (title self) = [] then Inl (ValueError ''Title cannot be empty'')
           else if strip (artist self) = [] then Inl (ValueError ''Artist cannot be empty'')
           else Inr self)"

text \<open>The call \<^verbatim>\<open>SongData(title=.., artist=.., album=.., duration=.., position=..)\<close>,
  with \<^verbatim>\<open>url\<close> left at its default \<^verbatim>\<open>None\<close> or given.\<close>

definition new_SongData ::
  "string \<Rightarrow> string \<Rightarrow> string \<Rightarrow> real \<Rightarrow> real \<Rightarrow> string option \<Rightarrow> error + SongData" where
  "new_SongData t a al d p u =
     post_init \<lparr>title = t, artist = a, album = al, duration = d, position = p, url = u\<rparr>"

section \<open>The framed transport\<close>

text \<open>
  A connected stream socket. \<open>incoming\<close> scripts what each \<^verbatim>\<open>recv\<close> finds: the bytes
  that have arrived by then (an empty chunk is the end of the stream), or a failure
  (\<^verbatim>\<open>OSError\<close>: reset, timeout); with nothing scripted the 5 second timeout of the socket
  expires. \<open>sent\<close> collects the bytes written, \<open>send_fails\<close> says that \<^verbatim>\<open>send\<close> raises
  \<^verbatim>\<open>OSError\<close> (the peer is gone). \<open>send_room\<close> is the room of the send buffer:
  \<open>Some n\<close> when it takes \<open>n\<close> more bytes, \<open>None\<close> when it takes whatever is sent.
\<close>

datatype recv_event = Data "byte list" | RecvFails

record socket =
  incoming :: "recv_event list"
  sent :: "byte list"
  send_fails :: bool
  send_room :: "nat option"

text \<open>\<^verbatim>\<open>sock.recv(n)\<close>: at most \<open>n\<close> bytes of what has arrived; the rest stays queued.\<close>

definition sock_recv :: "socket \<Rightarrow> nat \<Rightarrow> (error + byte list) \<times> socket" where
  "sock_recv s n =
     (case incoming s of
        [] \<Rightarrow> (Inl OSError, s)
      | RecvFails # es \<Rightarrow> (Inl OSError, s\<lparr>incoming := es\<rparr>)
      | Data c # es \<Rightarrow>
          if length c \<le> n then (Inr c, s\<lparr>incoming := es\<rparr>)
          else (Inr (take n c), s\<lparr>incoming := Data (drop n c) # es\<rparr>))"

text \<open>
  \<^verbatim>\<open>sock.send(b)\<close> on the socket with its timeout: \<^verbatim>\<open>OSError\<close> is raised (the peer is
  gone, or the buffer has no room before the timeout), or as many of the bytes as the
  buffer takes are written, from the front, and their number is returned.
\<close>

definition sock_send :: "socket \<Rightarrow> byte list \<Rightarrow> (error + nat) \<times> socket" where
  "sock_send s b =
     (if send_fails s then (Inl OSError, s)
      else
        (case send_room s of
           None \<Rightarrow> (Inr (length b), s\<lparr>sent := sent s @ b\<rparr>)
         | Some n \<Rightarrow>
             if n = 0 then (Inl OSError, s)
             else (Inr (min n (length b)),
                   s\<lparr>sent := sent s @ take n b, send_room := Some (n - min n (length b))\<rparr>)))"

text \<open>Little-endian unsigned integers, as \<^verbatim>\<open>struct\<close>'s format \<^verbatim>\<open><I\<close> lays them out.\<close>

fun le_bytes :: "nat \<Rightarrow> nat \<Rightarrow> byte list" where
  "le_bytes 0 n = []"
| "le_bytes (Suc k) n = of_nat (n mod 256) # le_bytes k (n div 256)"

fun le_nat :: "byte list \<Rightarrow> nat" where
  "le_nat [] = 0"
| "le_nat (b # bs) = unat b + 256 * le_nat bs"

text \<open>\<^verbatim>\<open>struct.pack("<II", a, b)\<close>: \<^verbatim>\<open>struct.error\<close> (here \<open>None\<close>) unless both arguments
  are in the range of an unsigned 32-bit integer.\<close>

definition struct_pack_II :: "int \<Rightarrow> int \<Rightarrow> byte list option" where
  "struct_pack_II a b =
     (if 0 \<le> a \<and> a < 2 ^ 32 \<and> 0 \<le> b \<and> b < 2 ^ 32
      then Some (le_bytes 4 (nat a) @ le_bytes 4 (nat b)) else None)"

text \<open>\<^verbatim>\<open>struct.unpack("<II", header)\<close>: \<^verbatim>\<open>struct.error\<close> unless the buffer has 8 bytes.\<close>

definition struct_unpack_II :: "byte list \<Rightarrow> (int \<times> int) option" where
  "struct_unpack_II h =
     (if length h = 8 then Some (int (le_nat (take 4 h)), int (le_nat (drop 4 h)))
      else None)"

text \<open>
  The pure functions of Python that the program calls: \<^verbatim>\<open>json.dumps\<close>,
  \<^verbatim>\<open>str.encode("utf-8")\<close>, \<^verbatim>\<open>bytes.decode("utf-8")\<close> (\<open>None\<close>: \<^verbatim>\<open>UnicodeDecodeError\<close>),
  \<^verbatim>\<open>json.loads\<close> (\<open>Inl\<close>: the exception it raises, \<^verbatim>\<open>JSONDecodeError\<close> on a text that is
  no JSON and \<^verbatim>\<open>RecursionError\<close> on one nested too deeply), \<^verbatim>\<open>urllib.parse.quote\<close>,
  \<^verbatim>\<open>float\<close> on a string (\<open>None\<close>: \<^verbatim>\<open>ValueError\<close>) and the subtraction of two floats
  (the exact difference of the two doubles, rounded to a double). They are not code of
  this repository and are taken as parameters.
\<close>

record pylib =
  json_dumps :: "json \<Rightarrow> string"
  utf8_encode :: "string \<Rightarrow> byte list"
  utf8_decode :: "byte list \<Rightarrow> string option"
  json_loads :: "string \<Rightarrow> error + json"
  url_quote :: "string \<Rightarrow> string"
  float_of_str :: "string \<Rightarrow> real option"
  float_sub :: "real \<Rightarrow> real \<Rightarrow> real"

text \<open>The object state of \<^verbatim>\<open>DiscordRPC\<close>; \<open>sock = None\<close> is Python's \<^verbatim>\<open>self.sock = None\<close>.\<close>

record rpc =
  client_id :: string
  sock :: "socket option"
  connected :: bool

text \<open>
  \<^verbatim>\<open>DiscordRPC._send_packet\<close> (lines 105-117). The two checks come before the
  \<^verbatim>\<open>try\<close>; inside it \<^verbatim>\<open>struct.error\<close> and \<^verbatim>\<open>OSError\<close> are re-raised as
  \<^verbatim>\<open>RuntimeError\<close>. The number that \<^verbatim>\<open>send\<close> returns is not looked at.
\<close>

definition send_packet :: "pylib \<Rightarrow> rpc \<Rightarrow> int \<Rightarrow> json \<Rightarrow> (error + unit) \<times> rpc" where
  "send_packet lib self opcode data =
     (case sock self of
        None \<Rightarrow> (Inl (RuntimeError ''Socket not connected''), self)
      | Some s \<Rightarrow>
          if opcode < 0 then (Inl (ValueError ''Opcode must be a non-negative integer''), self)
          else
            let json_data = utf8_encode lib (json_dumps lib data) in
            (case struct_pack_II opcode (int (length json_data)) of
               None \<Rightarrow> (Inl (RuntimeError ''Failed to send packet''), self)
             | Some header \<Rightarrow>
                 (case sock_send s (header @ json_data) of
                    (Inl e, s') \<Rightarrow> (Inl (RuntimeError ''Failed to send packet''), self\<lparr>sock := Some s'\<rparr>)
                  | (Inr written, s') \<Rightarrow> (Inr (), self\<lparr>sock := Some s'\<rparr>))))"

text \<open>
  The \<^verbatim>\<open>try\<close> block of \<^verbatim>\<open>DiscordRPC._read_packet\<close> (lines 125-138), every \<^verbatim>\<open>raise\<close> a
  result of its own.
\<close>

definition read_packet_body ::
  "pylib \<Rightarrow> socket \<Rightarrow> (error + int option \<times> json option) \<times> socket" where
  "read_packet_body lib s =
     (case sock_recv s 8 of
        (Inl e, s1) \<Rightarrow> (Inl e, s1)
      | (Inr header, s1) \<Rightarrow>
          if length header < 8 then (Inr (None, None), s1)
          else
            (case struct_unpack_II header of
               None \<Rightarrow> (Inl StructError, s1)
             | Some (opcode, len) \<Rightarrow>
                 if len > 1024 * 1024 then (Inl (ValueError ''Packet too large''), s1)
                 else if len \<le> 0 then (Inl (ValueError ''Invalid packet length''), s1)
                 else
                   (case sock_recv s1 (nat len) of
                      (Inl e, s2) \<Rightarrow> (Inl e, s2)
                    | (Inr payload, s2) \<Rightarrow>
                        (case utf8_decode lib payload of
                           None \<Rightarrow> (Inl UnicodeDecodeError, s2)
                         | Some data \<Rightarrow>
                             (case json_loads lib data of
                                Inl e \<Rightarrow> (Inl e, s2)
                              | Inr v \<Rightarrow> (Inr (Some opcode, Some v), s2))))))"

text \<open>The clause \<^verbatim>\<open>except (struct.error, json.JSONDecodeError, UnicodeDecodeError,
  OSError)\<close> of line 140: the classes it catches.\<close>

fun read_packet_catches :: "error \<Rightarrow> bool" where
  "read_packet_catches StructError = True"
| "read_packet_catches JSONDecodeError = True"
| "read_packet_catches UnicodeDecodeError = True"
| "read_packet_catches OSError = True"
| "read_packet_catches _ = False"

text \<open>\<^verbatim>\<open>DiscordRPC._read_packet\<close> (lines 119-141).\<close>

definition read_packet :: "pylib \<Rightarrow> rpc \<Rightarrow> (error + int option \<times> json option) \<times> rpc" where
  "read_packet lib self =
     (case sock self of
        None \<Rightarrow> (Inr (None, None), self)
      | Some s \<Rightarrow>
          (case read_packet_body lib s of
             (Inl e, s') \<Rightarrow>
               (if read_packet_catches e then Inr (None, None) else Inl e, self\<lparr>sock := Some s'\<rparr>)
           | (Inr r, s') \<Rightarrow> (Inr r, self\<lparr>sock := Some s'\<rparr>)))"

section \<open>The presence client\<close>

text \<open>\<^verbatim>\<open>str.isdigit\<close> on one code point below 256: 0-9 and the superscripts 2, 3, 1.\<close>

definition is_digit :: "char \<Rightarrow> bool" where
  "is_digit c = (let n = (of_char c :: nat) in (48 \<le> n \<and> n \<le> 57) \<or> n \<in> {178, 179, 185})"

text \<open>\<^verbatim>\<open>DiscordRPC.__init__\<close> (lines 43-51).\<close>

definition DiscordRPC_init :: "string \<Rightarrow> error + rpc" where
  "DiscordRPC_init cid =
     (if cid = [] \<or> strip cid = [] then Inl (ValueError ''Client ID cannot be empty'')
      else if \<not> list_all is_digit cid then Inl (ValueError ''Client ID must be numeric'')
      else Inr \<lparr>client_id = cid, sock = None, connected = False\<rparr>)"

text \<open>
  What \<^verbatim>\<open>connect\<close> reads of the operating system: the variable \<^verbatim>\<open>TMPDIR\<close>,
  \<^verbatim>\<open>os.path.exists\<close>, and what \<^verbatim>\<open>socket.connect\<close> on a path gives: the connected
  stream, or \<open>None\<close> when it raises \<^verbatim>\<open>OSError\<close>.
\<close>

record os_env =
  environ_TMPDIR :: "string option"
  path_exists :: "string \<Rightarrow> bool"
  unix_connect :: "string \<Rightarrow> socket option"

text \<open>\<^verbatim>\<open>os.path.join(a, b)\<close> for a relative \<open>b\<close>.\<close>

definition path_join :: "string \<Rightarrow> string \<Rightarrow> string" where
  "path_join a b = (if a = [] \<or> last a = CHR ''/'' then a @ b else a @ ''/'' @ b)"

text \<open>\<^verbatim>\<open>str(n)\<close> of a natural number, as the f-string of line 65 formats \<open>i\<close>.\<close>

fun str_nat :: "nat \<Rightarrow> string" where
  "str_nat n =
     (if n < 10 then [char_of (48 + n)] else str_nat (n div 10) @ [char_of (48 + n mod 10)])"

declare str_nat.simps [simp del]

definition socket_path :: "string \<Rightarrow> nat \<Rightarrow> string" where
  "socket_path tmpdir i = path_join tmpdir (''discord-ipc-'' @ str_nat i)"

text \<open>The object \<^verbatim>\<open>socket.socket(AF_UNIX, SOCK_STREAM)\<close> before it is connected.\<close>

definition unconnected :: socket where
  "unconnected = \<lparr>incoming = [], sent = [], send_fails = True, send_room = None\<rparr>"

text \<open>\<^verbatim>\<open>response and response.get("evt") == name\<close>, with \<open>None\<close> for Python's
  \<^verbatim>\<open>None\<close> response.\<close>

definition evt_is :: "json option \<Rightarrow> string \<Rightarrow> error + bool" where
  "evt_is response name =
     (case response of
        None \<Rightarrow> Inr False
      | Some r \<Rightarrow>
          if \<not> truthy r then Inr False
          else (case py_get r ''evt'' of Inl e \<Rightarrow> Inl e | Inr v \<Rightarrow> Inr (v = JStr name)))"

text \<open>
  The handshake of lines 74-77, and the \<^verbatim>\<open>try\<close> block of one round of the loop of
  \<^verbatim>\<open>connect\<close> (lines 65-84):
  \<open>Inr True\<close> is \<^verbatim>\<open>return True\<close>, \<open>Inr False\<close> leaves the block for the next round
  (\<^verbatim>\<open>continue\<close>, or its end), \<open>Inl\<close> is an exception.
\<close>

definition handshake :: "string \<Rightarrow> json" where
  "handshake cid = JDict [(''v'', JInt 1), (''client_id'', JStr cid)]"

definition connect_try :: "pylib \<Rightarrow> os_env \<Rightarrow> string \<Rightarrow> rpc \<Rightarrow> nat \<Rightarrow> (error + bool) \<times> rpc" where
  "connect_try lib env tmpdir self i =
     (if \<not> path_exists env (socket_path tmpdir i) then (Inr False, self)
      else
        (case unix_connect env (socket_path tmpdir i) of
           None \<Rightarrow> (Inl OSError, self\<lparr>sock := Some unconnected\<rparr>)
         | Some s \<Rightarrow>
             (case send_packet lib (self\<lparr>sock := Some s\<rparr>) 0 (handshake (client_id self)) of
                (Inl e, self1) \<Rightarrow> (Inl e, self1)
              | (Inr u, self1) \<Rightarrow>
                  (case read_packet lib self1 of
                     (Inl e, self2) \<Rightarrow> (Inl e, self2)
                   | (Inr (opcode, response), self2) \<Rightarrow>
                       (case evt_is response ''READY'' of
                          Inl e \<Rightarrow> (Inl e, self2)
                        | Inr ready \<Rightarrow>
                            if ready then (Inr True, self2\<lparr>connected := True\<rparr>)
                            else (Inr False, self2))))))"

text \<open>
  The loop \<^verbatim>\<open>for i in range(10)\<close> of \<^verbatim>\<open>connect\<close> over the indices still to try. Both
  \<^verbatim>\<open>except\<close> clauses (lines 86-101; the second catches every \<^verbatim>\<open>Exception\<close>) close the
  socket, set \<^verbatim>\<open>self.sock = None\<close> and go on.
\<close>

fun connect_loop :: "pylib \<Rightarrow> os_env \<Rightarrow> string \<Rightarrow> rpc \<Rightarrow> nat list \<Rightarrow> bool \<times> rpc" where
  "connect_loop lib env tmpdir self [] = (False, self)"
| "connect_loop lib env tmpdir self (i # rest) =
     (case connect_try lib env tmpdir self i of
        (Inl e, self') \<Rightarrow> connect_loop lib env tmpdir (self'\<lparr>sock := None\<rparr>) rest
      | (Inr stop, self') \<Rightarrow>
          if stop then (True, self') else connect_loop lib env tmpdir self' rest)"

text \<open>\<^verbatim>\<open>DiscordRPC.connect\<close> (lines 53-103).\<close>

definition connect :: "pylib \<Rightarrow> os_env \<Rightarrow> rpc \<Rightarrow> bool \<times> rpc" where
  "connect lib env self =
     (if connected self then (True, self)
      else
        let tmpdir = (case environ_TMPDIR env of None \<Rightarrow> ''/tmp/'' | Some d \<Rightarrow> d)
        in if \<not> path_exists env tmpdir then (False, self)
           else connect_loop lib env tmpdir self [0..<10])"

text \<open>
  The command of lines 149-153 and the \<^verbatim>\<open>try\<close> block of
  \<^verbatim>\<open>DiscordRPC.set_activity\<close> (lines 149-163). \<open>nonce\<close> is
  \<^verbatim>\<open>str(uuid.uuid4())\<close>, \<open>pid\<close> is \<^verbatim>\<open>os.getpid()\<close>, and the activity \<^verbatim>\<open>None\<close> is \<open>JNull\<close>.
\<close>

definition command :: "string \<Rightarrow> int \<Rightarrow> json \<Rightarrow> json" where
  "command nonce pid activity =
     JDict [(''cmd'', JStr ''SET_ACTIVITY''), (''nonce'', JStr nonce),
            (''args'', JDict [(''pid'', JInt pid), (''activity'', activity)])]"

definition set_activity_body ::
  "pylib \<Rightarrow> string \<Rightarrow> int \<Rightarrow> rpc \<Rightarrow> json \<Rightarrow> (error + bool) \<times> rpc" where
  "set_activity_body lib nonce pid self activity =
     (case send_packet lib self 1 (command nonce pid activity) of
        (Inl e, self1) \<Rightarrow> (Inl e, self1)
      | (Inr u, self1) \<Rightarrow>
          (case read_packet lib self1 of
             (Inl e, self2) \<Rightarrow> (Inl e, self2)
           | (Inr (opcode, response), self2) \<Rightarrow>
               (case evt_is response ''ERROR'' of
                  Inl e \<Rightarrow> (Inl e, self2)
                | Inr err \<Rightarrow> (Inr (\<not> err), self2))))"

text \<open>\<^verbatim>\<open>DiscordRPC.set_activity\<close> (lines 143-165): \<^verbatim>\<open>except Exception: return False\<close>.\<close>

definition set_activity :: "pylib \<Rightarrow> string \<Rightarrow> int \<Rightarrow> rpc \<Rightarrow> json \<Rightarrow> bool \<times> rpc" where
  "set_activity lib nonce pid self activity =
     (if \<not> connected self \<or> sock self = None then (False, self)
      else
        (case set_activity_body lib nonce pid self activity of
           (Inl e, self') \<Rightarrow> (False, self')
         | (Inr ok, self') \<Rightarrow> (ok, self')))"

text \<open>\<^verbatim>\<open>DiscordRPC.close\<close> (lines 167-175).\<close>

definition close :: "rpc \<Rightarrow> rpc" where
  "close self = self\<lparr>sock := None, connected := False\<rparr>"

section \<open>The enrichment lookups\<close>

text \<open>
  What \<^verbatim>\<open>urllib.request.urlopen(url, timeout=5)\<close> gives: an exception (\<^verbatim>\<open>URLError\<close>,
  a timeout), or a response with its status and its body as
  \<^verbatim>\<open>json.loads(response.read().decode())\<close> reads it (\<open>None\<close> when that raises).
\<close>

datatype http_result = UrlError | Response int "json option"

text \<open>\<^verbatim>\<open>a or b or c\<close> on three values.\<close>

definition py_or3 :: "json \<Rightarrow> json \<Rightarrow> json \<Rightarrow> json" where
  "py_or3 a b c = (if truthy a then a else if truthy b then b else c)"

text \<open>
  \<^verbatim>\<open>get_album_artwork\<close> (lines 178-222); the result \<^verbatim>\<open>None\<close> is \<open>JNull\<close>. Every
  exception of the \<^verbatim>\<open>try\<close> block ends in \<^verbatim>\<open>return None\<close>: a value without \<^verbatim>\<open>get\<close>, a
  number under \<^verbatim>\<open>len\<close>, a \<^verbatim>\<open>str\<close> or \<^verbatim>\<open>dict\<close> under the index \<^verbatim>\<open>[0]\<close> and \<^verbatim>\<open>.get\<close>.
\<close>

definition get_album_artwork ::
  "pylib \<Rightarrow> (string \<Rightarrow> http_result) \<Rightarrow> string \<Rightarrow> string \<Rightarrow> string \<Rightarrow> json" where
  "get_album_artwork lib fetch artist' title' album' =
     (if strip artist' = [] \<and> strip title' = [] then JNull
      else
        let query = strip (artist' @ '' '' @ title') in
        if query = [] then JNull
        else
          (case fetch (''https://api.deezer.com/search/track?q='' @ url_quote lib query
                       @ ''&limit=1'') of
             UrlError \<Rightarrow> JNull
           | Response status body \<Rightarrow>
               if status \<noteq> 200 then JNull
               else
                 (case body of
                    None \<Rightarrow> JNull
                  | Some data \<Rightarrow>
                      (case py_get data ''data'' of
                         Inl e \<Rightarrow> JNull
                       | Inr tracks \<Rightarrow>
                           if \<not> truthy tracks then JNull
                           else
                             (case tracks of
                                JList (track # others) \<Rightarrow>
                                  (case py_get_default track ''album'' (JDict []) of
                                     Inl e \<Rightarrow> JNull
                                   | Inr album_info \<Rightarrow>
                                       (case album_info of
                                          JDict kvs \<Rightarrow>
                                            py_or3 (case map_of kvs ''cover_xl'' of
                                                      None \<Rightarrow> JNull | Some v \<Rightarrow> v)
                                                   (case map_of kvs ''cover_big'' of
                                                      None \<Rightarrow> JNull | Some v \<Rightarrow> v)
                                                   (case map_of kvs ''cover_medium'' of
                                                      None \<Rightarrow> JNull | Some v \<Rightarrow> v)
                                        | _ \<Rightarrow> JNull))
                              | _ \<Rightarrow> JNull)))))"

text \<open>The match test of lines 261-266 on the lowered names of one result.\<close>

definition names_match :: "string \<Rightarrow> string \<Rightarrow> string \<Rightarrow> string \<Rightarrow> bool" where
  "names_match artist' title' result_artist result_title =
     ((str_in (lower artist') result_artist \<or> str_in result_artist (lower artist')) \<and>
      (str_in (lower title') result_title \<or> str_in result_title (lower title')))"

text \<open>
  The loop over \<^verbatim>\<open>data["results"]\<close> (lines 256-273): \<open>Inr (Some u)\<close> is \<^verbatim>\<open>return u\<close>,
  \<open>Inr None\<close> is the end of the loop, \<open>Inl\<close> an exception (a result that is no
  \<^verbatim>\<open>dict\<close>, a name that is no \<^verbatim>\<open>str\<close>).
\<close>

fun match_results :: "string \<Rightarrow> string \<Rightarrow> json list \<Rightarrow> error + string option" where
  "match_results artist' title' [] = Inr None"
| "match_results artist' title' (result # rest) =
     (case py_get_default result ''artistName'' (JStr []) of
        Inl e \<Rightarrow> Inl e
      | Inr (JStr a) \<Rightarrow>
          (case py_get_default result ''trackName'' (JStr []) of
             Inl e \<Rightarrow> Inl e
           | Inr (JStr t) \<Rightarrow>
               if names_match artist' title' (lower a) (lower t) then
                 (case py_get result ''trackViewUrl'' of
                    Inl e \<Rightarrow> Inl e
                  | Inr (JStr track_view_url) \<Rightarrow>
                      if track_view_url \<noteq> []
                      then Inr (Some (replace ''itunes.apple.com'' ''music.apple.com'' track_view_url))
                      else match_results artist' title' rest
                  | Inr _ \<Rightarrow> match_results artist' title' rest)
               else match_results artist' title' rest
           | Inr _ \<Rightarrow> Inl AttributeError)
      | Inr _ \<Rightarrow> Inl AttributeError)"

text \<open>The \<^verbatim>\<open>try\<close> block of \<^verbatim>\<open>get_apple_music_url\<close> from the request on (lines 236-273).\<close>

definition search_itunes ::
  "pylib \<Rightarrow> (string \<Rightarrow> http_result) \<Rightarrow> string \<Rightarrow> string \<Rightarrow> string \<Rightarrow> error + string option" where
  "search_itunes lib fetch query artist' title' =
     (case fetch (''https://itunes.apple.com/search?term='' @ url_quote lib query
                  @ ''&media=music&entity=song&limit=5'') of
        UrlError \<Rightarrow> Inl OSError
      | Response status body \<Rightarrow>
          if status \<noteq> 200 then Inl HTTPError
          else
            (case body of
               None \<Rightarrow> Inl JSONDecodeError
             | Some data \<Rightarrow>
                 (case py_get data ''results'' of
                    Inl e \<Rightarrow> Inl e
                  | Inr results \<Rightarrow>
                      if \<not> truthy results then Inr None
                      else
                        (case results of
                           JList rs \<Rightarrow> match_results artist' title' rs
                         | JStr cs \<Rightarrow> Inl AttributeError
                         | JDict kvs \<Rightarrow> Inl AttributeError
                         | _ \<Rightarrow> Inl TypeError))))"

text \<open>The fallback of lines 286-292.\<close>

definition fallback_url :: "pylib \<Rightarrow> string \<Rightarrow> string \<Rightarrow> string" where
  "fallback_url lib artist' title' =
     (let fallback_query = strip (artist' @ '' '' @ title')
      in if fallback_query \<noteq> []
         then ''https://music.apple.com/search?term='' @ url_quote lib fallback_query
         else ''https://music.apple.com/'')"

text \<open>\<^verbatim>\<open>get_apple_music_url\<close> (lines 225-292): both \<^verbatim>\<open>except\<close> clauses \<^verbatim>\<open>pass\<close>, so every
  exception of the \<^verbatim>\<open>try\<close> block leads to the fallback.\<close>

definition get_apple_music_url ::
  "pylib \<Rightarrow> (string \<Rightarrow> http_result) \<Rightarrow> string \<Rightarrow> string \<Rightarrow> string \<Rightarrow> string" where
  "get_apple_music_url lib fetch artist' title' album' =
     (if strip artist' = [] \<and> strip title' = [] then ''https://music.apple.com/''
      else
        let query = strip (title' @ '' '' @ artist') in
        if query = [] then ''https://music.apple.com/''
        else
          (case search_itunes lib fetch query artist' title' of
             Inr (Some apple_music_url) \<Rightarrow> apple_music_url
           | _ \<Rightarrow> fallback_url lib artist' title'))"

section \<open>The media source\<close>

text \<open>\<^verbatim>\<open>s.split(sep)\<close> for a non-empty \<open>sep\<close>; \<open>cur\<close> is the part read so far.\<close>

function split_from :: "string \<Rightarrow> string \<Rightarrow> string \<Rightarrow> string list" where
  "split_from sep cur [] = [cur]"
| "split_from sep cur (c # cs) =
     (if sep \<noteq> [] \<and> prefix sep (c # cs)
      then cur # split_from sep [] (drop (length sep) (c # cs))
      else split_from sep (cur @ [c]) cs)"
  by pat_completeness auto
termination
  by (relation "measure (\<lambda>(sep, cur, s). length s)") (auto simp: Suc_le_eq)

definition split :: "string \<Rightarrow> string \<Rightarrow> string list" where
  "split sep s = split_from sep [] s"

text \<open>
  \<^verbatim>\<open>get_current_song\<close> (lines 295-365). \<open>run\<close> is the standard output of the
  \<^verbatim>\<open>osascript\<close> call, \<open>None\<close> when \<^verbatim>\<open>subprocess.run\<close> raises (exit status, timeout,
  \<^verbatim>\<open>OSError\<close>). The \<^verbatim>\<open>ValueError\<close> of the constructor is caught by line 358.
\<close>

definition get_current_song :: "pylib \<Rightarrow> string option \<Rightarrow> SongData option" where
  "get_current_song lib run =
     (case run of
        None \<Rightarrow> None
      | Some stdout \<Rightarrow>
          let output = strip stdout in
          if output = [] \<or> output = ''NOT_PLAYING'' then None
          else
            let parts = split ''|||'' output in
            if length parts < 5 then None
            else
              (case float_of_str lib (parts ! 3) of
                 None \<Rightarrow> None
               | Some d \<Rightarrow>
                   (case float_of_str lib (parts ! 4) of
                      None \<Rightarrow> None
                    | Some p \<Rightarrow>
                        (case new_SongData (strip (parts ! 0)) (strip (parts ! 1))
                                (strip (parts ! 2)) d p None of
                           Inl e \<Rightarrow> None
                         | Inr song_data \<Rightarrow>
                             Some (if length parts \<ge> 6 \<and> strip (parts ! 5) \<noteq> []
                                   then song_data\<lparr>url := Some (strip (parts ! 5))\<rparr>
                                   else song_data)))))"

section \<open>The polling loop\<close>

text \<open>The variables of \<^verbatim>\<open>main\<close> that live across the rounds of its loop (lines 373-384);
  \<open>cached_artwork = JNull\<close> is \<^verbatim>\<open>None\<close>.\<close>

record loop_state =
  discord :: rpc
  last_was_playing :: "bool option"
  last_song_info :: "string option"
  cached_artwork :: json

text \<open>What one round of the loop reads of the world: the output of \<^verbatim>\<open>osascript\<close>, the
  answers of the HTTP services, \<^verbatim>\<open>int(time.time())\<close> and the fresh \<^verbatim>\<open>uuid4\<close>.\<close>

record world =
  osascript :: "string option"
  fetch :: "string \<Rightarrow> http_result"
  now :: int
  nonce :: string

text \<open>The activity of lines 408-427.\<close>

definition build_activity :: "SongData \<Rightarrow> string \<Rightarrow> int \<Rightarrow> int \<Rightarrow> json \<Rightarrow> json" where
  "build_activity song apple_music_url start_time end_time artwork =
     JDict ([(''type'', JInt 2),
             (''name'', JStr ''Apple Music''),
             (''details'', JStr (title song)),
             (''state'', JStr (''by '' @ artist song)),
             (''timestamps'', JDict [(''start'', JInt start_time), (''end'', JInt end_time)]),
             (''buttons'', JList [JDict [(''label'', JStr ''Listen on Apple Music''),
                                        (''url'', JStr apple_music_url)]])]
            @ (if truthy artwork
               then [(''assets'', JDict [(''large_image'', artwork),
                        (''large_text'', JStr (album song @ '' by '' @ artist song))])]
               else []))"

text \<open>
  One round of the \<^verbatim>\<open>while True\<close> loop of \<^verbatim>\<open>main\<close> (lines 388-436), without the
  \<^verbatim>\<open>sleep\<close>. Beside the new state it returns the arguments of the calls of
  \<^verbatim>\<open>discord.set_activity\<close> that the round made, in order.
\<close>

definition tick :: "pylib \<Rightarrow> int \<Rightarrow> world \<Rightarrow> loop_state \<Rightarrow> loop_state \<times> json list" where
  "tick lib pid w st =
     (case get_current_song lib (osascript w) of
        Some song \<Rightarrow>
          let current_song_info = artist song @ ''-'' @ title song;
              st1 = (if Some current_song_info \<noteq> last_song_info st
                     then st\<lparr>cached_artwork :=
                                get_album_artwork lib (fetch w) (artist song) (title song) (album song),
                             last_song_info := Some current_song_info\<rparr>
                     else st);
              apple_music_url =
                (case url song of
                   Some u \<Rightarrow>
                     if u \<noteq> [] then u
                     else get_apple_music_url lib (fetch w) (artist song) (title song) (album song)
                 | None \<Rightarrow>
                     get_apple_music_url lib (fetch w) (artist song) (title song) (album song));
              current_time = now w;
              start_time = current_time - py_int (position song);
              end_time = current_time + py_int (float_sub lib (duration song) (position song));
              activity = build_activity song apple_music_url start_time end_time (cached_artwork st1);
              (ok, d) = set_activity lib (nonce w) pid (discord st1) activity
          in (st1\<lparr>discord := d, last_was_playing := Some True\<rparr>, [activity])
      | None \<Rightarrow>
          if last_was_playing st \<noteq> Some False then
            let (ok, d) = set_activity lib (nonce w) pid (discord st) JNull
            in (st\<lparr>discord := d, last_was_playing := Some False\<rparr>, [JNull])
          else (st, []))"

text \<open>The first rounds of the loop, one per element of the list.\<close>

fun run_ticks :: "pylib \<Rightarrow> int \<Rightarrow> world list \<Rightarrow> loop_state \<Rightarrow> loop_state \<times> json list" where
  "run_ticks lib pid [] st = (st, [])"
| "run_ticks lib pid (w # ws) st =
     (case tick lib pid w st of
        (st1, calls1) \<Rightarrow>
          (case run_ticks lib pid ws st1 of (st2, calls2) \<Rightarrow> (st2, calls1 @ calls2)))"

text \<open>The start of \<^verbatim>\<open>main\<close> (lines 370-384): the state in which the loop is entered, or
  \<open>None\<close> when \<^verbatim>\<open>main\<close> returns before it.\<close>

definition main_start :: "pylib \<Rightarrow> os_env \<Rightarrow> loop_state option" where
  "main_start lib env =
     (case DiscordRPC_init ''1410325920039960657'' of
        Inl e \<Rightarrow> None
      | Inr d \<Rightarrow>
          (case connect lib env d of
             (ok, d') \<Rightarrow>
               if \<not> ok then None
               else Some \<lparr>discord = d', last_was_playing = None, last_song_info = None,
                          cached_artwork = JNull\<rparr>))"

section \<open>Notions used to state the properties\<close>

text \<open>
  The handshake of \<^verbatim>\<open>connect\<close> on a connected stream \<open>s\<close>, seen from outside the loop:
  the handshake is sent, a response is read and its \<^verbatim>\<open>evt\<close> is \<^verbatim>\<open>"READY"\<close>. The value is
  the client after it, connected. A candidate index answers when its path exists, the
  connection is accepted and the handshake is answered so.
\<close>

definition answers_ready :: "pylib \<Rightarrow> rpc \<Rightarrow> socket \<Rightarrow> rpc option" where
  "answers_ready lib self s =
     (case send_packet lib (self\<lparr>sock := Some s\<rparr>) 0 (handshake (client_id self)) of
        (Inl e, self1) \<Rightarrow> None
      | (Inr u, self1) \<Rightarrow>
          (case read_packet lib self1 of
             (Inl e, self2) \<Rightarrow> None
           | (Inr (opcode, response), self2) \<Rightarrow>
               (case response of
                  None \<Rightarrow> None
                | Some r \<Rightarrow>
                    if py_get r ''evt'' = Inr (JStr ''READY'')
                    then Some (self2\<lparr>connected := True\<rparr>) else None)))"

definition candidate :: "pylib \<Rightarrow> os_env \<Rightarrow> string \<Rightarrow> rpc \<Rightarrow> nat \<Rightarrow> rpc option" where
  "candidate lib env tmpdir self i =
     (if \<not> path_exists env (socket_path tmpdir i) then None
      else
        (case unix_connect env (socket_path tmpdir i) of
           None \<Rightarrow> None
         | Some s \<Rightarrow> answers_ready lib self s))"

text \<open>
  One search result as the loop of \<^verbatim>\<open>get_apple_music_url\<close> reads it: its two names, when
  it is a \<^verbatim>\<open>dict\<close> whose \<^verbatim>\<open>artistName\<close> and \<^verbatim>\<open>trackName\<close> are strings (an absent name
  counts as the empty string); whether these names match the query in the sense of lines
  261-266; and its link, when \<^verbatim>\<open>trackViewUrl\<close> is a non-empty string.
\<close>

definition result_names :: "json \<Rightarrow> (string \<times> string) option" where
  "result_names result =
     (case py_get_default result ''artistName'' (JStr []) of
        Inr (JStr a) \<Rightarrow>
          (case py_get_default result ''trackName'' (JStr []) of
             Inr (JStr t) \<Rightarrow> Some (a, t)
           | _ \<Rightarrow> None)
      | _ \<Rightarrow> None)"

definition result_matches :: "string \<Rightarrow> string \<Rightarrow> json \<Rightarrow> bool" where
  "result_matches artist' title' result =
     (case result_names result of
        Some (a, t) \<Rightarrow> names_match artist' title' (lower a) (lower t)
      | None \<Rightarrow> False)"

definition result_link :: "json \<Rightarrow> string option" where
  "result_link result =
     (case py_get result ''trackViewUrl'' of
        Inr (JStr u) \<Rightarrow> if u \<noteq> [] then Some u else None
      | _ \<Rightarrow> None)"

text \<open>The timestamps of an activity passed to \<^verbatim>\<open>set_activity\<close>.\<close>

definition timestamps :: "json \<Rightarrow> error + json" where
  "timestamps activity = py_get activity ''timestamps''"

section \<open>A concrete world for the examples\<close>

text \<open>
  The examples below run the program on concrete inputs. The library functions are given
  on the inputs the examples use: UTF-8 on ASCII text, where a character is its own byte;
  \<^verbatim>\<open>json.dumps\<close> as Python writes the values of the examples (no float, and strings of
  printable ASCII without quote or backslash; a float is not covered and written as
  \<^verbatim>\<open>null\<close>); \<^verbatim>\<open>json.loads\<close> and \<^verbatim>\<open>float\<close> as tables of the values Python computes for the
  listed texts (any other text is refused); \<^verbatim>\<open>urllib.parse.quote\<close> on letters, digits
  and spaces (a space becomes \<^verbatim>\<open>%20\<close>); and the subtraction of floats on the doubles
  of the examples: it is exact where the exact difference is a double, as for 200 and
  50, and it is 200 for 200 and the double nearest \<open>1e-15\<close>, whose exact difference lies
  between 200 and the double before it, \<open>200 - 2 ^ -45\<close>, and nearer to 200.
\<close>

definition ascii_encode :: "string \<Rightarrow> byte list" where
  "ascii_encode s = map (\<lambda>c. of_nat (of_char c)) s"

definition ascii_decode :: "byte list \<Rightarrow> string option" where
  "ascii_decode b = (if list_all (\<lambda>x. x < 128) b then Some (map (\<lambda>x. char_of (unat x)) b) else None)"

definition str_int :: "int \<Rightarrow> string" where
  "str_int i = (if i < 0 then ''-'' @ str_nat (nat (- i)) else str_nat (nat i))"

fun join :: "string \<Rightarrow> string list \<Rightarrow> string" where
  "join sep [] = []"
| "join sep [x] = x"
| "join sep (x # y # ys) = x @ sep @ join sep (y # ys)"

definition quoted :: "string \<Rightarrow> string" where
  "quoted s = [CHR 0x22] @ s @ [CHR 0x22]"

fun ex_dumps :: "json \<Rightarrow> string" where
  "ex_dumps JNull = ''null''"
| "ex_dumps (JBool b) = (if b then ''true'' else ''false'')"
| "ex_dumps (JInt i) = str_int i"
| "ex_dumps (JFloat r) = ''null''"
| "ex_dumps (JStr s) = quoted s"
| "ex_dumps (JList xs) = ''['' @ join '', '' (map ex_dumps xs) @ '']''"
| "ex_dumps (JDict kvs) =
     ''{'' @ join '', '' (map (\<lambda>(k, v). quoted k @ '': '' @ ex_dumps v) kvs) @ ''}''"

definition ex_loads :: "string \<Rightarrow> error + json" where
  \<open>ex_loads s =
     (if s = ''{"v": 1, "client_id": "1410325920039960657"}''
      then Inr (handshake ''1410325920039960657'')
      else if s = ''{"evt": "READY"}'' then Inr (JDict [(''evt'', JStr ''READY'')])
      else if s = ''{"evt": "ERROR"}'' then Inr (JDict [(''evt'', JStr ''ERROR'')])
      else if s = ''null'' then Inr JNull
      else Inl JSONDecodeError)\<close>

definition double_1e_15 :: real where
  "double_1e_15 = 2535301200456459 / 2535301200456458802993406410752"

definition ex_float :: "string \<Rightarrow> real option" where
  "ex_float s =
     (if s = ''200.0'' then Some 200 else if s = ''50.0'' then Some 50
      else if s = ''1e-15'' then Some double_1e_15
      else None)"

definition ex_fsub :: "real \<Rightarrow> real \<Rightarrow> real" where
  "ex_fsub x y = (if x = 200 \<and> y = double_1e_15 then 200 else x - y)"

definition ex_quote :: "string \<Rightarrow> string" where
  "ex_quote s = concat (map (\<lambda>c. if c = CHR '' '' then ''%20'' else [c]) s)"

definition ex_lib :: pylib where
  "ex_lib = \<lparr>json_dumps = ex_dumps, utf8_encode = ascii_encode, utf8_decode = ascii_decode,
     json_loads = ex_loads, url_quote = ex_quote, float_of_str = ex_float,
     float_sub = ex_fsub\<rparr>"

definition frame :: "nat \<Rightarrow> string \<Rightarrow> byte list" where
  "frame opcode s = le_bytes 4 opcode @ le_bytes 4 (length s) @ ascii_encode s"

definition ex_peer :: "string list \<Rightarrow> socket" where
  "ex_peer answers = \<lparr>incoming = map (\<lambda>s. Data (frame 1 s)) answers, sent = [], send_fails = False, send_room = None\<rparr>"

definition ex_env :: os_env where
  \<open>ex_env = \<lparr>environ_TMPDIR = None,
     path_exists = (\<lambda>p. p = ''/tmp/'' \<or> p = ''/tmp/discord-ipc-2'' \<or> p = ''/tmp/discord-ipc-4''),
     unix_connect = (\<lambda>p. if p = ''/tmp/discord-ipc-4'' then Some (ex_peer [''{"evt": "READY"}'']) else None)\<rparr>\<close>

definition ex_playing :: world where
  "ex_playing = \<lparr>osascript = Some ''Song A|||Artist B|||Album C|||200.0|||50.0|||'',
     fetch = (\<lambda>u. UrlError), now = 1700000000, nonce = ''n1''\<rparr>"

definition ex_idle :: world where
  "ex_idle = \<lparr>osascript = Some ''NOT_PLAYING'', fetch = (\<lambda>u. UrlError), now = 1700000001,
     nonce = ''n2''\<rparr>"

definition ex_song :: SongData where
  "ex_song = \<lparr>title = ''Song A'', artist = ''Artist B'', album = ''Album C'', duration = 200,
     position = 50, url = None\<rparr>"

definition ex_started :: world where
  "ex_started = \<lparr>osascript = Some ''Song A|||Artist B|||Album C|||200.0|||1e-15|||'',
     fetch = (\<lambda>u. UrlError), now = 1700000000, nonce = ''n1''\<rparr>"

definition ex_song_started :: SongData where
  "ex_song_started = \<lparr>title = ''Song A'', artist = ''Artist B'', album = ''Album C'',
     duration = 200, position = double_1e_15, url = None\<rparr>"

definition ex_rpc :: rpc where
  \<open>ex_rpc = \<lparr>client_id = ''1410325920039960657'',
     sock = Some (ex_peer [''{"evt": "READY"}'', ''{"evt": "ERROR"}'']), connected = True\<rparr>\<close>

definition ex_state :: loop_state where
  "ex_state = \<lparr>discord = ex_rpc, last_was_playing = None, last_song_info = None,
     cached_artwork = JNull\<rparr>"

definition ex_reader :: "recv_event list \<Rightarrow> rpc" where
  "ex_reader evs = \<lparr>client_id = ''1410325920039960657'',
     sock = Some \<lparr>incoming = evs, sent = [], send_fails = False, send_room = None\<rparr>, connected = True\<rparr>"

definition ex_wire :: "byte list" where
  \<open>ex_wire = frame 0 ''{"v": 1, "client_id": "1410325920039960657"}''\<close>

definition ex_clear :: "byte list" where
  \<open>ex_clear = frame 1
     ''{"cmd": "SET_ACTIVITY", "nonce": "n1", "args": {"pid": 7, "activity": null}}''\<close>

definition ex_sent :: "recv_event list \<Rightarrow> byte list \<Rightarrow> rpc" where
  "ex_sent evs out = \<lparr>client_id = ''1410325920039960657'',
     sock = Some \<lparr>incoming = evs, sent = out, send_fails = False, send_room = None\<rparr>, connected = True\<rparr>"





definition ex_broken :: rpc where
  "ex_broken = \<lparr>client_id = ''1410325920039960657'',
     sock = Some \<lparr>incoming = [], sent = [], send_fails = True, send_room = None\<rparr>, connected = True\<rparr>"

definition ex_fresh :: rpc where
  "ex_fresh = \<lparr>client_id = ''1410325920039960657'', sock = None, connected = False\<rparr>"

definition ex_env_empty :: os_env where
  "ex_env_empty = \<lparr>environ_TMPDIR = Some ''/run/user/501'',
     path_exists = (\<lambda>p. p = ''/run/user/501''), unix_connect = (\<lambda>p. None)\<rparr>"

definition ex_env_nodir :: os_env where
  "ex_env_nodir = \<lparr>environ_TMPDIR = Some ''/nonexistent'',
     path_exists = (\<lambda>p. False), unix_connect = (\<lambda>p. None)\<rparr>"

definition ex_fetch :: "json list \<Rightarrow> string \<Rightarrow> http_result" where
  "ex_fetch rs u =
     (if u = ''https://itunes.apple.com/search?term=Song%20A%20Artist%20B&media=music&entity=song&limit=5''
      then Response 200 (Some (JDict [(''resultCount'', JInt (int (length rs))), (''results'', JList rs)]))
      else UrlError)"

definition ex_result :: "string \<Rightarrow> string \<Rightarrow> string \<Rightarrow> json" where
  "ex_result a t u = JDict [(''artistName'', JStr a), (''trackName'', JStr t), (''trackViewUrl'', JStr u)]"

definition ex_r1 :: json where
  "ex_r1 = ex_result ''Other'' ''Song A'' ''https://itunes.apple.com/us/album/1''"

definition ex_r2 :: json where
  "ex_r2 = ex_result ''Artist B'' ''Different'' ''https://itunes.apple.com/us/album/2''"

definition ex_r3 :: json where
  "ex_r3 = ex_result ''Artist B'' ''Song A (Remastered)'' ''https://itunes.apple.com/us/album/3?i=3''"

definition ex_no_link :: json where
  "ex_no_link = JDict [(''artistName'', JStr ''Artist B''), (''trackName'', JStr ''Song A'')]"

definition ex_null_artist :: json where
  "ex_null_artist = JDict [(''artistName'', JNull), (''trackName'', JStr ''Song A'')]"

definition ex_env_more :: os_env where
  \<open>ex_env_more = \<lparr>environ_TMPDIR = None,
     path_exists = (\<lambda>p. p = ''/tmp/'' \<or> p = ''/tmp/discord-ipc-2'' \<or> p = ''/tmp/discord-ipc-4''
                        \<or> p = ''/tmp/discord-ipc-7''),
     unix_connect = (\<lambda>p. if p = ''/tmp/discord-ipc-4'' \<or> p = ''/tmp/discord-ipc-7''
                          then Some (ex_peer [''{"evt": "READY"}'']) else None)\<rparr>\<close>

section \<open>Basic facts\<close>

lemma dropWhile_all: "list_all P (dropWhile P s) \<longleftrightarrow> list_all P s"
  by (induction s) auto

lemma strip_Nil_iff: "strip s = [] \<longleftrightarrow> list_all is_space s"
proof -
  have "strip s = [] \<longleftrightarrow> list_all is_space (dropWhile is_space s)"
    by (simp add: strip_def dropWhile_eq_Nil_conv list_all_iff)
  then show ?thesis by (simp add: dropWhile_all)
qed

lemma post_init_Inr:
  assumes "post_init s = Inr s'"
  shows "0 \<le> position s' \<and> position s' \<le> duration s' \<and> strip (title s') \<noteq> [] \<and> strip (artist s') \<noteq> []"
  using assms by (auto simp: post_init_def Let_def split: if_splits)

lemma get_current_song_valid:
  assumes "get_current_song lib run = Some song"
  shows "0 \<le> position song \<and> position song \<le> duration song"
proof -
  from assms obtain t a al d p s0 where
    new: "new_SongData t a al d p None = Inr s0" and
    song: "position song = position s0 \<and> duration song = duration s0"
    by (auto simp: get_current_song_def Let_def split: option.splits if_splits sum.splits)
  from new have "0 \<le> position s0 \<and> position s0 \<le> duration s0"
    using post_init_Inr by (simp add: new_SongData_def)
  with song show ?thesis by simp
qed

lemma py_int_nonneg: "0 \<le> x \<Longrightarrow> py_int x = \<lfloor>x\<rfloor>"
  by (simp add: py_int_def)

lemma tick_not_playing:
  assumes "get_current_song lib (osascript w) = None"
  shows "tick lib pid w st =
    (if last_was_playing st \<noteq> Some False
     then (st\<lparr>discord := snd (set_activity lib (nonce w) pid (discord st) JNull),
               last_was_playing := Some False\<rparr>, [JNull])
     else (st, []))"
  using assms by (simp add: tick_def split: prod.split)

lemma tick_playing:
  assumes "get_current_song lib (osascript w) = Some song"
  shows "\<exists>u art. snd (tick lib pid w st) =
           [build_activity song u (now w - py_int (position song))
              (now w + py_int (float_sub lib (duration song) (position song))) art]
         \<and> last_was_playing (fst (tick lib pid w st)) = Some True"
  using assms by (simp add: tick_def Let_def split: prod.split) blast

lemma run_ticks_idle:
  assumes "\<forall>w\<in>set ws. get_current_song lib (osascript w) = None"
    and "last_was_playing st = Some False"
  shows "run_ticks lib pid ws st = (st, [])"
  using assms by (induction ws) (simp_all add: tick_not_playing)

lemma timestamps_build_activity:
  "py_get (build_activity song u s e art) ''timestamps'' =
     Inr (JDict [(''start'', JInt s), (''end'', JInt e)])"
  by (simp add: build_activity_def)

lemma length_le_bytes: "length (le_bytes k n) = k"
  by (induction k arbitrary: n) simp_all




lemma sock_recv_chunk:
  assumes "incoming s = Data c # rest"
  shows "sock_recv s n =
    (Inr (take n c), s\<lparr>incoming := (if length c \<le> n then rest else Data (drop n c) # rest)\<rparr>)"
  using assms by (simp add: sock_recv_def)

lemma read_packet_body_header:
  assumes "incoming s = Data c # rest" and "8 \<le> length c"
    and "struct_unpack_II (take 8 c) = Some (opcode, len)"
  shows "read_packet_body lib s =
    (let s1 = s\<lparr>incoming := (if length c \<le> 8 then rest else Data (drop 8 c) # rest)\<rparr>
     in if len > 1024 * 1024 then (Inl (ValueError ''Packet too large''), s1)
        else if len \<le> 0 then (Inl (ValueError ''Invalid packet length''), s1)
        else
          (case sock_recv s1 (nat len) of
             (Inl e, s2) \<Rightarrow> (Inl e, s2)
           | (Inr payload, s2) \<Rightarrow>
               (case utf8_decode lib payload of
                  None \<Rightarrow> (Inl UnicodeDecodeError, s2)
                | Some data \<Rightarrow>
                    (case json_loads lib data of
                       Inl e \<Rightarrow> (Inl e, s2)
                     | Inr v \<Rightarrow> (Inr (Some opcode, Some v), s2)))))"
  using assms by (simp add: read_packet_body_def sock_recv_chunk Let_def)

lemma send_packet_frame:
  assumes "send_packet lib self opcode data = (r, self')"
  shows "connected self' = connected self \<and> client_id self' = client_id self
    \<and> (sock self' = None \<longleftrightarrow> sock self = None)"
  using assms
  by (auto simp: send_packet_def Let_def split: option.splits if_splits prod.splits sum.splits)

lemma read_packet_frame:
  assumes "read_packet lib self = (r, self')"
  shows "connected self' = connected self \<and> client_id self' = client_id self
    \<and> (sock self' = None \<longleftrightarrow> sock self = None)"
  using assms
  by (auto simp: read_packet_def split: option.splits if_splits prod.splits sum.splits)

lemma set_activity_body_frame:
  assumes "set_activity_body lib n pid self activity = (r, self')"
  shows "connected self' = connected self \<and> client_id self' = client_id self
    \<and> (sock self' = None \<longleftrightarrow> sock self = None)"
proof -
  obtain r1 self1 where s: "send_packet lib self 1 (command n pid activity) = (r1, self1)"
    by (cases "send_packet lib self 1 (command n pid activity)")
  obtain r2 self2 where rd: "read_packet lib self1 = (r2, self2)"
    by (cases "read_packet lib self1")
  from assms s rd have "self' = self1 \<or> self' = self2"
    by (auto simp: set_activity_body_def split: sum.splits prod.splits)
  then show ?thesis
    using send_packet_frame [OF s] read_packet_frame [OF rd] by auto
qed

lemma set_activity_frame:
  assumes "set_activity lib n pid self activity = (ok, self')"
  shows "connected self' = connected self \<and> client_id self' = client_id self
    \<and> (sock self' = None \<longleftrightarrow> sock self = None)"
proof (cases "\<not> connected self \<or> sock self = None")
  case True
  with assms show ?thesis by (auto simp: set_activity_def)
next
  case False
  obtain r self1 where b: "set_activity_body lib n pid self activity = (r, self1)"
    by (cases "set_activity_body lib n pid self activity")
  from assms False b have "self' = self1"
    by (auto simp: set_activity_def split: sum.splits)
  then show ?thesis
    using set_activity_body_frame [OF b] by simp
qed

lemma evt_is_found:
  assumes "py_get response ''evt'' = Inr (JStr name)"
  shows "evt_is (Some response) name = Inr True"
proof (cases response)
  case (JDict kvs)
  with assms have "kvs \<noteq> []" by (auto split: option.splits)
  with assms JDict show ?thesis by (simp add: evt_is_def)
qed (use assms in simp_all)

lemma send_packet_only_sock:
  assumes "send_packet lib self opcode data = (r, self')"
  shows "self' = self\<lparr>sock := sock self'\<rparr>"
  using assms
  by (auto simp: send_packet_def Let_def split: option.splits if_splits prod.splits sum.splits)

lemma read_packet_only_sock:
  assumes "read_packet lib self = (r, self')"
  shows "self' = self\<lparr>sock := sock self'\<rparr>"
  using assms
  by (auto simp: read_packet_def split: option.splits if_splits prod.splits sum.splits)

lemma evt_is_True_iff:
  "evt_is (Some r) name = Inr True \<longleftrightarrow> py_get r ''evt'' = Inr (JStr name)"
proof
  assume "evt_is (Some r) name = Inr True"
  then show "py_get r ''evt'' = Inr (JStr name)"
    by (auto simp: evt_is_def split: if_splits sum.splits)
next
  assume "py_get r ''evt'' = Inr (JStr name)"
  then show "evt_is (Some r) name = Inr True" by (rule evt_is_found)
qed

lemma evt_is_None: "evt_is None name = Inr False"
  by (simp add: evt_is_def)

lemma connect_try_ready:
  assumes "candidate lib env tmpdir self i = Some self'"
  shows "connect_try lib env tmpdir self i = (Inr True, self')"
proof -
  from assms obtain s where p: "path_exists env (socket_path tmpdir i)"
    and u: "unix_connect env (socket_path tmpdir i) = Some s"
    and a: "answers_ready lib self s = Some self'"
    by (auto simp: candidate_def split: if_splits option.splits)
  from a obtain self1 self2 opcode r where
    s1: "send_packet lib (self\<lparr>sock := Some s\<rparr>) 0 (handshake (client_id self)) = (Inr (), self1)"
    and r1: "read_packet lib self1 = (Inr (opcode, Some r), self2)"
    and e: "py_get r ''evt'' = Inr (JStr ''READY'')"
    and s': "self' = self2\<lparr>connected := True\<rparr>"
    by (auto simp: answers_ready_def split: prod.splits sum.splits option.splits if_splits)
  from e have "evt_is (Some r) ''READY'' = Inr True" by (rule evt_is_found)
  with p u s1 r1 s' show ?thesis
    by (simp add: connect_try_def)
qed

lemma connect_try_not_ready:
  assumes "candidate lib env tmpdir self i = None"
  shows "\<exists>r x. connect_try lib env tmpdir self i = (r, self\<lparr>sock := x\<rparr>) \<and> r \<noteq> Inr True"
proof (cases "path_exists env (socket_path tmpdir i)")
  case False
  have "self = self\<lparr>sock := sock self\<rparr>" by simp
  with False show ?thesis
    by (metis connect_try_def sum.inject(2))
next
  case p: True
  show ?thesis
  proof (cases "unix_connect env (socket_path tmpdir i)")
    case None
    with p have "connect_try lib env tmpdir self i = (Inl OSError, self\<lparr>sock := Some unconnected\<rparr>)"
      by (simp add: connect_try_def)
    then show ?thesis by blast
  next
    case (Some s)
    with p assms have a: "answers_ready lib self s = None"
      by (simp add: candidate_def)
    obtain r1 self1 where
      s1: "send_packet lib (self\<lparr>sock := Some s\<rparr>) 0 (handshake (client_id self)) = (r1, self1)"
      by (cases "send_packet lib (self\<lparr>sock := Some s\<rparr>) 0 (handshake (client_id self))")
    from send_packet_only_sock [OF s1] have f1: "self1 = self\<lparr>sock := sock self1\<rparr>" by simp
    show ?thesis
    proof (cases r1)
      case (Inl e)
      with p Some s1 f1 show ?thesis
        by (auto simp: connect_try_def)
    next
      case (Inr u1)
      obtain r2 self2 where r2: "read_packet lib self1 = (r2, self2)"
        by (cases "read_packet lib self1")
      from read_packet_only_sock [OF r2] f1 have f2: "self2 = self\<lparr>sock := sock self2\<rparr>"
        by (metis rpc.surjective rpc.update_convs(2))
      show ?thesis
      proof (cases r2)
        case (Inl e)
        with p Some s1 Inr r2 f2 show ?thesis
          by (auto simp: connect_try_def)
      next
        case ok: (Inr res)
        obtain opcode response where res: "res = (opcode, response)" by (cases res)
        have ne: "evt_is response ''READY'' \<noteq> Inr True"
        proof (cases response)
          case None
          then show ?thesis by (simp add: evt_is_None)
        next
          case (Some r)
          with a s1 Inr r2 ok res have "py_get r ''evt'' \<noteq> Inr (JStr ''READY'')"
            by (auto simp: answers_ready_def split: if_splits)
          with Some show ?thesis by (simp add: evt_is_True_iff)
        qed
        have ct: "connect_try lib env tmpdir self i =
            (case evt_is response ''READY'' of
               Inl e \<Rightarrow> (Inl e, self2)
             | Inr ready \<Rightarrow> if ready then (Inr True, self2\<lparr>connected := True\<rparr>) else (Inr False, self2))"
          using p Some s1 Inr r2 ok res by (simp add: connect_try_def)
        show ?thesis
        proof (cases "evt_is response ''READY''")
          case (Inl e)
          with ct f2 show ?thesis by auto
        next
          case (Inr ready)
          with ne have "\<not> ready" by simp
          with ct Inr f2 show ?thesis by auto
        qed
      qed
    qed
  qed
qed

lemma answers_ready_sock: "answers_ready lib (self\<lparr>sock := x\<rparr>) s = answers_ready lib self s"
  by (simp add: answers_ready_def)

lemma candidate_sock: "candidate lib env tmpdir (self\<lparr>sock := x\<rparr>) i = candidate lib env tmpdir self i"
  by (simp add: candidate_def answers_ready_sock split: option.splits)

lemma connect_loop_none:
  assumes "\<forall>j\<in>set js. candidate lib env tmpdir self j = None"
  shows "\<exists>x'. connect_loop lib env tmpdir (self\<lparr>sock := x\<rparr>) js = (False, self\<lparr>sock := x'\<rparr>)"
  using assms
proof (induction js arbitrary: x)
  case Nil
  have "connect_loop lib env tmpdir (self\<lparr>sock := x\<rparr>) [] = (False, self\<lparr>sock := x\<rparr>)"
    by simp
  then show ?case by blast
next
  case (Cons j js)
  from Cons.prems have "candidate lib env tmpdir (self\<lparr>sock := x\<rparr>) j = None"
    by (simp add: candidate_sock)
  from connect_try_not_ready [OF this] obtain r y where
    ct: "connect_try lib env tmpdir (self\<lparr>sock := x\<rparr>) j = (r, self\<lparr>sock := y\<rparr>)" and r: "r \<noteq> Inr True"
    by auto
  from Cons.prems have rest: "\<forall>j\<in>set js. candidate lib env tmpdir self j = None" by simp
  show ?case
  proof (cases r)
    case (Inl e)
    with ct Cons.IH [OF rest, of None] show ?thesis by simp
  next
    case (Inr stop)
    with r have "\<not> stop" by simp
    with ct Inr Cons.IH [OF rest, of y] show ?thesis by simp
  qed
qed

lemma connect_loop_first:
  assumes "\<forall>j\<in>set pre. candidate lib env tmpdir self j = None"
    and "candidate lib env tmpdir self k = Some self'"
  shows "connect_loop lib env tmpdir (self\<lparr>sock := x\<rparr>) (pre @ k # post) = (True, self')"
  using assms(1)
proof (induction pre arbitrary: x)
  case Nil
  from assms(2) have "candidate lib env tmpdir (self\<lparr>sock := x\<rparr>) k = Some self'"
    by (simp add: candidate_sock)
  from connect_try_ready [OF this] show ?case by simp
next
  case (Cons j pre)
  from Cons.prems have "candidate lib env tmpdir (self\<lparr>sock := x\<rparr>) j = None"
    by (simp add: candidate_sock)
  from connect_try_not_ready [OF this] obtain r y where
    ct: "connect_try lib env tmpdir (self\<lparr>sock := x\<rparr>) j = (r, self\<lparr>sock := y\<rparr>)" and r: "r \<noteq> Inr True"
    by auto
  from Cons.prems have rest: "\<forall>j\<in>set pre. candidate lib env tmpdir self j = None" by simp
  show ?case
  proof (cases r)
    case (Inl e)
    with ct Cons.IH [OF rest, of None] show ?thesis by simp
  next
    case (Inr stop)
    with r have "\<not> stop" by simp
    with ct Inr Cons.IH [OF rest, of y] show ?thesis by simp
  qed
qed

lemma candidate_connected:
  assumes "candidate lib env tmpdir self i = Some self'"
  shows "connected self' \<and> client_id self' = client_id self \<and> sock self' \<noteq> None"
proof -
  from assms obtain s where a: "answers_ready lib self s = Some self'"
    by (auto simp: candidate_def split: if_splits option.splits)
  then obtain self1 self2 opcode r where
    s1: "send_packet lib (self\<lparr>sock := Some s\<rparr>) 0 (handshake (client_id self)) = (Inr (), self1)"
    and r1: "read_packet lib self1 = (Inr (opcode, Some r), self2)"
    and s': "self' = self2\<lparr>connected := True\<rparr>"
    by (auto simp: answers_ready_def split: prod.splits sum.splits option.splits if_splits)
  from send_packet_frame [OF s1] read_packet_frame [OF r1] s' show ?thesis by simp
qed

lemma candidate_agree:
  assumes "path_exists env' (socket_path tmpdir j) = path_exists env (socket_path tmpdir j)"
    and "unix_connect env' (socket_path tmpdir j) = unix_connect env (socket_path tmpdir j)"
  shows "candidate lib env' tmpdir self j = candidate lib env tmpdir self j"
  using assms by (simp add: candidate_def)

lemma upt_split:
  assumes "k < n"
  shows "[0..<n] = [0..<k] @ k # [Suc k..<n]"
proof -
  from assms obtain d where n: "n = k + d"
    using less_imp_add_positive by blast
  have "[0..<k + d] = [0..<k] @ [k..<k + d]"
    by (rule upt_add_eq_append) simp
  moreover have "[k..<n] = k # [Suc k..<n]"
    using assms by (rule upt_conv_Cons)
  ultimately show ?thesis by (simp only: n)
qed

lemma socket_path_longer: "socket_path d i \<noteq> d"
  by (simp add: socket_path_def path_join_def)

lemma match_results_step:
  "match_results a t (r # rest) =
     (case result_names r of
        None \<Rightarrow> Inl AttributeError
      | Some (x, y) \<Rightarrow>
          if names_match a t (lower x) (lower y) then
            (case result_link r of
               Some u \<Rightarrow> Inr (Some (replace ''itunes.apple.com'' ''music.apple.com'' u))
             | None \<Rightarrow> match_results a t rest)
          else match_results a t rest)"
proof (cases r)
  case (JDict kvs)
  define A where "A = (case map_of kvs ''artistName'' of None \<Rightarrow> JStr [] | Some v \<Rightarrow> v)"
  define T where "T = (case map_of kvs ''trackName'' of None \<Rightarrow> JStr [] | Some v \<Rightarrow> v)"
  define U where "U = (case map_of kvs ''trackViewUrl'' of None \<Rightarrow> JNull | Some v \<Rightarrow> v)"
  have pA: "py_get_default r ''artistName'' (JStr []) = Inr A"
    by (simp add: JDict A_def)
  have pT: "py_get_default r ''trackName'' (JStr []) = Inr T"
    by (simp add: JDict T_def)
  have pU: "py_get r ''trackViewUrl'' = Inr U"
    by (simp add: JDict U_def)
  show ?thesis
    unfolding match_results.simps(2) result_names_def result_link_def pA pT pU
    by (cases A) (simp_all, cases T, simp_all, cases U, simp_all)
qed (simp_all add: result_names_def)

declare match_results.simps(2) [simp del]


lemma replace_nonempty: "new \<noteq> [] \<Longrightarrow> s \<noteq> [] \<Longrightarrow> replace old new s \<noteq> []"
  by (cases s) simp_all

lemma result_link_nonempty: "result_link r = Some u \<Longrightarrow> u \<noteq> []"
  by (auto simp: result_link_def split: sum.splits json.splits if_splits)

lemma match_results_first:
  assumes "\<forall>x\<in>set pre. result_names x \<noteq> None \<and> \<not> (result_matches a t x \<and> result_link x \<noteq> None)"
    and "result_matches a t r" and "result_link r = Some u"
  shows "match_results a t (pre @ r # post) =
    Inr (Some (replace ''itunes.apple.com'' ''music.apple.com'' u))"
  using assms(1)
proof (induction pre)
  case Nil
  from assms(2,3) show ?case
    by (auto simp: match_results_step result_matches_def split: option.splits)
next
  case (Cons x pre)
  from Cons.prems obtain b c where n: "result_names x = Some (b, c)"
    and m: "\<not> (names_match a t (lower b) (lower c) \<and> result_link x \<noteq> None)"
    by (auto simp: result_matches_def)
  from Cons.prems have "match_results a t (pre @ r # post) =
      Inr (Some (replace ''itunes.apple.com'' ''music.apple.com'' u))"
    by (intro Cons.IH) simp
  with n m show ?case
    by (auto simp: match_results_step split: option.splits)
qed

lemma match_results_found:
  assumes "match_results a t rs = Inr (Some v)"
  shows "\<exists>x\<in>set rs. result_matches a t x \<and> result_link x \<noteq> None \<and> v \<noteq> []"
  using assms
proof (induction rs)
  case Nil
  then show ?case by simp
next
  case (Cons r rs)
  show ?case
  proof (cases "result_matches a t r \<and> result_link r \<noteq> None")
    case True
    then obtain u where u: "result_link r = Some u" by auto
    with True Cons.prems have "v = replace ''itunes.apple.com'' ''music.apple.com'' u"
      by (auto simp: match_results_step result_matches_def split: option.splits if_splits)
    with result_link_nonempty [OF u] have "v \<noteq> []"
      by (simp add: replace_nonempty)
    with True show ?thesis by auto
  next
    case False
    with Cons.prems have "match_results a t rs = Inr (Some v)"
      by (auto simp: match_results_step result_matches_def split: option.splits if_splits)
    from Cons.IH [OF this] show ?thesis by auto
  qed
qed

lemma search_itunes_found:
  assumes "search_itunes lib f q a t = Inr (Some v)"
  shows "\<exists>data rs. f (''https://itunes.apple.com/search?term='' @ url_quote lib q
                  @ ''&media=music&entity=song&limit=5'') = Response 200 (Some data)
      \<and> py_get data ''results'' = Inr (JList rs) \<and> match_results a t rs = Inr (Some v)"
  using assms
  by (auto simp: search_itunes_def split: http_result.splits if_splits option.splits sum.splits json.splits)

lemma search_itunes_list:
  assumes "f (''https://itunes.apple.com/search?term='' @ url_quote lib q
                  @ ''&media=music&entity=song&limit=5'') = Response 200 (Some data)"
    and "py_get data ''results'' = Inr (JList rs)"
  shows "search_itunes lib f q a t = match_results a t rs"
  using assms by (cases rs) (simp_all add: search_itunes_def)

lemma query_nonblank:
  assumes "\<not> (strip a = [] \<and> strip t = [])"
  shows "strip (t @ '' '' @ a) \<noteq> []" and "strip (a @ '' '' @ t) \<noteq> []"
  using assms by (auto simp: strip_Nil_iff)

lemma fallback_url_nonempty: "fallback_url lib a t \<noteq> []"
  by (simp add: fallback_url_def Let_def)









section \<open>SongData: the clamp and the validation\<close>

text \<open>
  Claim C7. Whenever \<^verbatim>\<open>SongData\<close> is constructed with a title and an artist that are not
  empty after stripping, \<open>duration \<ge> 0\<close>, \<open>position \<ge> 0\<close> and \<open>position > duration\<close>, the
  construction succeeds and the object built has its position equal to its duration:
  the position is clamped down, the construction is not rejected. All other fields are
  the arguments.
\<close>

theorem songdata_position_clamped:
  assumes "strip t \<noteq> []" and "strip a \<noteq> []" and "0 \<le> d" and "0 \<le> p" and "p > d"
  shows "new_SongData t a al d p u =
    Inr \<lparr>title = t, artist = a, album = al, duration = d, position = d, url = u\<rparr>"
  using assms by (simp add: new_SongData_def post_init_def)

text \<open>The clamp at title "Song A", artist "Artist B", duration 200 and position 250.\<close>

theorem songdata_position_clamped_witness:
  "strip ''Song A'' \<noteq> [] \<and> strip ''Artist B'' \<noteq> [] \<and> (0::real) \<le> 200 \<and> (0::real) \<le> 250
   \<and> (250::real) > 200
   \<and> new_SongData ''Song A'' ''Artist B'' ''Album C'' 200 250 None =
       Inr \<lparr>title = ''Song A'', artist = ''Artist B'', album = ''Album C'', duration = 200,
            position = 200, url = None\<rparr>"
proof -
  have t: "strip ''Song A'' \<noteq> []" by code_simp
  have a: "strip ''Artist B'' \<noteq> []" by code_simp
  show ?thesis
    using t a songdata_position_clamped [OF t a, of 200 250 "''Album C''" None] by simp
qed

text \<open>
  Claim C8. Whenever the title or the artist given to the constructor of \<^verbatim>\<open>SongData\<close> is
  empty or consists of whitespace only, the construction fails with a \<^verbatim>\<open>ValueError\<close>,
  whatever the other arguments are; and no object that the constructor returns has a
  blank title or a blank artist.
\<close>

theorem songdata_blank_rejected:
  "(list_all is_space t \<or> list_all is_space a \<longrightarrow>
      (\<exists>msg. new_SongData t a al d p u = Inl (ValueError msg)))
   \<and> (\<forall>song. new_SongData t a al d p u = Inr song \<longrightarrow>
         \<not> list_all is_space (title song) \<and> \<not> list_all is_space (artist song))"
proof (intro conjI impI allI)
  assume "list_all is_space t \<or> list_all is_space a"
  then show "\<exists>msg. new_SongData t a al d p u = Inl (ValueError msg)"
    by (auto simp: new_SongData_def post_init_def Let_def strip_Nil_iff)
next
  fix song
  assume "new_SongData t a al d p u = Inr song"
  then have "strip (title song) \<noteq> [] \<and> strip (artist song) \<noteq> []"
    using post_init_Inr by (simp add: new_SongData_def)
  then show "\<not> list_all is_space (title song)" and "\<not> list_all is_space (artist song)"
    by (simp_all add: strip_Nil_iff)
qed

text \<open>A title of a space and a tab is rejected.\<close>

theorem songdata_blank_rejected_witness:
  "list_all is_space [CHR '' '', CHR 0x09] \<and>
   (\<exists>msg. new_SongData [CHR '' '', CHR 0x09] ''Artist B'' ''Album C'' 200 50 None
            = Inl (ValueError msg))"
proof -
  have b: "list_all is_space [CHR '' '', CHR 0x09]" by code_simp
  show ?thesis
    using b songdata_blank_rejected [of "[CHR '' '', CHR 0x09]" "''Artist B''" "''Album C''" 200 50 None]
    by blast
qed

section \<open>The polling loop: clearing the presence\<close>

text \<open>
  Claim C4. Let a round of the loop observe a playing song, and let the rounds \<open>w1\<close>,
  \<open>ws\<close> after it observe nothing playing. Then the round \<open>w1\<close> calls
  \<^verbatim>\<open>set_activity(None)\<close> exactly once, the rounds \<open>ws\<close> that follow make no call of
  \<^verbatim>\<open>set_activity\<close> at all, so all the rounds without a song together make the one call;
  and in any state a round that observes nothing playing makes the clearing call
  when the cached \<^verbatim>\<open>last_was_playing\<close> is not exactly \<^verbatim>\<open>False\<close>, and no call otherwise.
\<close>

theorem clear_once_after_stop:
  assumes playing: "get_current_song lib (osascript w0) = Some song"
    and idle: "\<forall>w\<in>set (w1 # ws). get_current_song lib (osascript w) = None"
  shows "snd (tick lib pid w1 (fst (tick lib pid w0 st))) = [JNull]
    \<and> snd (run_ticks lib pid ws (fst (tick lib pid w1 (fst (tick lib pid w0 st))))) = []
    \<and> snd (run_ticks lib pid (w1 # ws) (fst (tick lib pid w0 st))) = [JNull]
    \<and> (\<forall>st'. snd (tick lib pid w1 st') =
               (if last_was_playing st' \<noteq> Some False then [JNull] else []))"
proof -
  let ?st1 = "fst (tick lib pid w0 st)"
  let ?st2 = "fst (tick lib pid w1 ?st1)"
  from idle have i1: "get_current_song lib (osascript w1) = None"
    and irest: "\<forall>w\<in>set ws. get_current_song lib (osascript w) = None"
    by simp_all
  have l1: "last_was_playing ?st1 = Some True"
    using tick_playing [OF playing] by blast
  have t2: "tick lib pid w1 ?st1 =
      (?st1\<lparr>discord := snd (set_activity lib (nonce w1) pid (discord ?st1) JNull),
             last_was_playing := Some False\<rparr>, [JNull])"
    using l1 by (simp add: tick_not_playing [OF i1])
  have c1: "snd (tick lib pid w1 ?st1) = [JNull]"
    by (simp add: t2)
  have l2: "last_was_playing ?st2 = Some False"
    by (simp add: t2)
  have r: "run_ticks lib pid ws ?st2 = (?st2, [])"
    by (rule run_ticks_idle [OF irest l2])
  have c2: "snd (run_ticks lib pid ws ?st2) = []"
    by (simp add: r)
  have c3: "snd (run_ticks lib pid (w1 # ws) ?st1) = [JNull]"
    using c1 r by (simp add: split_beta)
  have c4: "\<forall>st'. snd (tick lib pid w1 st') =
               (if last_was_playing st' \<noteq> Some False then [JNull] else [])"
    by (simp add: tick_not_playing [OF i1])
  from c1 c2 c3 c4 show ?thesis by blast
qed

text \<open>One round with "Song A" playing, then rounds in which the player reports
  \<^verbatim>\<open>NOT_PLAYING\<close>.\<close>

theorem clear_once_after_stop_witness:
  "get_current_song ex_lib (osascript ex_playing) = Some ex_song
   \<and> get_current_song ex_lib (osascript ex_idle) = None
   \<and> snd (tick ex_lib 7 ex_idle (fst (tick ex_lib 7 ex_playing ex_state))) = [JNull]
   \<and> snd (run_ticks ex_lib 7 [ex_idle, ex_idle]
            (fst (tick ex_lib 7 ex_idle (fst (tick ex_lib 7 ex_playing ex_state))))) = []
   \<and> snd (run_ticks ex_lib 7 [ex_idle, ex_idle, ex_idle]
            (fst (tick ex_lib 7 ex_playing ex_state))) = [JNull]"
proof -
  have p: "get_current_song ex_lib (osascript ex_playing) = Some ex_song" by code_simp
  have i: "get_current_song ex_lib (osascript ex_idle) = None" by code_simp
  have all_idle: "\<forall>w\<in>set (ex_idle # [ex_idle, ex_idle]). get_current_song ex_lib (osascript w) = None"
    using i by simp
  show ?thesis
    using p i clear_once_after_stop [OF p all_idle, of 7 ex_state] by blast
qed

text \<open>
  Claim C5. The loop is entered with \<^verbatim>\<open>last_was_playing = None\<close>; if nothing is playing
  in its very first round, that round calls \<^verbatim>\<open>set_activity(None)\<close> once, although no
  song was playing before.
\<close>

theorem first_tick_clears:
  assumes "main_start lib env = Some st0"
    and "get_current_song lib (osascript w) = None"
  shows "last_was_playing st0 = None \<and> snd (tick lib pid w st0) = [JNull]"
proof -
  from assms(1) have "last_was_playing st0 = None"
    by (auto simp: main_start_def split: sum.splits prod.splits if_splits)
  then show ?thesis
    by (simp add: tick_not_playing [OF assms(2)])
qed

text \<open>\<^verbatim>\<open>main\<close> connects through \<^verbatim>\<open>/tmp/discord-ipc-4\<close>, and the player is idle in the
  first round.\<close>

theorem first_tick_clears_witness:
  "main_start ex_lib ex_env \<noteq> None
   \<and> get_current_song ex_lib (osascript ex_idle) = None
   \<and> snd (tick ex_lib 7 ex_idle (the (main_start ex_lib ex_env))) = [JNull]"
proof -
  have m: "main_start ex_lib ex_env \<noteq> None" by code_simp
  then obtain st0 where s: "main_start ex_lib ex_env = Some st0" by blast
  have i: "get_current_song ex_lib (osascript ex_idle) = None" by code_simp
  show ?thesis
    using m i s first_tick_clears [OF s i, of 7] by simp
qed

section \<open>The polling loop: the timestamps\<close>

text \<open>
  Claim C9, as amended. A round of the loop that finds a song playing, with \<open>now\<close> the
  epoch second \<^verbatim>\<open>int(time.time())\<close> it reads, makes one call of \<^verbatim>\<open>set_activity\<close>, and the
  activity it passes has the timestamps \<open>start = now - floor(position)\<close> and
  \<open>end = now + floor(d)\<close>, where \<open>d\<close> is the difference of duration and position as the
  subtraction of floats computes it (a double, not negative since the position of a
  \<^verbatim>\<open>SongData\<close> is at most its duration); for a song of duration 200.0 at position 50.0,
  where the difference is 150.0, these are \<open>now - 50\<close> and \<open>now + 150\<close>.
\<close>

theorem activity_timestamps:
  assumes "get_current_song lib (osascript w) = Some song"
    and "0 \<le> float_sub lib (duration song) (position song)"
  shows "\<exists>activity. snd (tick lib pid w st) = [activity]
    \<and> timestamps activity =
        Inr (JDict [(''start'', JInt (now w - \<lfloor>position song\<rfloor>)),
                    (''end'', JInt (now w + \<lfloor>float_sub lib (duration song) (position song)\<rfloor>))])
    \<and> (duration song = 200 \<and> position song = 50 \<and> float_sub lib 200 50 = 150 \<longrightarrow>
        timestamps activity =
          Inr (JDict [(''start'', JInt (now w - 50)), (''end'', JInt (now w + 150))]))"
proof -
  from get_current_song_valid [OF assms(1)]
  have v: "0 \<le> position song" by simp
  from tick_playing [OF assms(1), of pid st] obtain u art where
    t: "snd (tick lib pid w st) =
          [build_activity song u (now w - py_int (position song))
             (now w + py_int (float_sub lib (duration song) (position song))) art]"
    by blast
  let ?a = "build_activity song u (now w - \<lfloor>position song\<rfloor>)
             (now w + \<lfloor>float_sub lib (duration song) (position song)\<rfloor>) art"
  have t': "snd (tick lib pid w st) = [?a]"
    using t v assms(2) by (simp add: py_int_nonneg)
  have ts: "timestamps ?a =
        Inr (JDict [(''start'', JInt (now w - \<lfloor>position song\<rfloor>)),
                    (''end'', JInt (now w + \<lfloor>float_sub lib (duration song) (position song)\<rfloor>))])"
    unfolding timestamps_def by (rule timestamps_build_activity)
  have ex: "duration song = 200 \<and> position song = 50 \<and> float_sub lib 200 50 = 150 \<longrightarrow>
        timestamps ?a =
          Inr (JDict [(''start'', JInt (now w - 50)), (''end'', JInt (now w + 150))])"
    by (simp add: timestamps_def timestamps_build_activity)
  from t' ts ex show ?thesis by blast
qed

text \<open>"Song A" of 200 seconds at position 50, read at the epoch second 1700000000.\<close>

theorem activity_timestamps_witness:
  "get_current_song ex_lib (osascript ex_playing) = Some ex_song
   \<and> float_sub ex_lib (duration ex_song) (position ex_song) = 150
   \<and> (\<exists>activity. snd (tick ex_lib 7 ex_playing ex_state) = [activity]
        \<and> timestamps activity =
            Inr (JDict [(''start'', JInt 1699999950), (''end'', JInt 1700000150)]))"
proof -
  have p: "get_current_song ex_lib (osascript ex_playing) = Some ex_song" by code_simp
  have n: "now ex_playing = 1700000000" "duration ex_song = 200" "position ex_song = 50"
    by (simp_all add: ex_playing_def ex_song_def)
  have f: "float_sub ex_lib (duration ex_song) (position ex_song) = 150"
    by (simp add: n ex_lib_def ex_fsub_def double_1e_15_def)
  have f0: "0 \<le> float_sub ex_lib (duration ex_song) (position ex_song)"
    by (simp add: f)
  show ?thesis
    using p f activity_timestamps [OF p f0, of 7 ex_state] by (simp add: n)
qed

text \<open>Claim C9 as stated fails: for "Song A" of 200 seconds at position \<open>1e-15\<close> the end
  timestamp is \<open>now + 200\<close>, because \<^verbatim>\<open>200.0 - 1e-15\<close> is the double 200.0, while the floor
  of the difference of duration and position is 199.\<close>

theorem rounded_difference_counterexample:
  "get_current_song ex_lib (osascript ex_started) = Some ex_song_started
   \<and> map timestamps (snd (tick ex_lib 7 ex_started ex_state)) =
       [Inr (JDict [(''start'', JInt 1700000000), (''end'', JInt 1700000200)])]
   \<and> \<lfloor>duration ex_song_started - position ex_song_started\<rfloor> = 199"
proof -
  have p: "get_current_song ex_lib (osascript ex_started) = Some ex_song_started" by code_simp
  have n: "now ex_started = 1700000000" "duration ex_song_started = 200"
    "position ex_song_started = double_1e_15"
    by (simp_all add: ex_started_def ex_song_started_def)
  have f: "float_sub ex_lib 200 double_1e_15 = 200"
    by (simp add: ex_lib_def ex_fsub_def)
  have i0: "py_int double_1e_15 = 0"
    by (simp add: py_int_def double_1e_15_def)
  have i1: "py_int 200 = 200"
    by (simp add: py_int_def)
  from tick_playing [OF p, of 7 ex_state] obtain u art where
    t: "snd (tick ex_lib 7 ex_started ex_state) =
          [build_activity ex_song_started u (now ex_started - py_int (position ex_song_started))
             (now ex_started
              + py_int (float_sub ex_lib (duration ex_song_started) (position ex_song_started)))
             art]"
    by blast
  have m: "map timestamps (snd (tick ex_lib 7 ex_started ex_state)) =
       [Inr (JDict [(''start'', JInt 1700000000), (''end'', JInt 1700000200)])]"
    unfolding t by (simp add: timestamps_def timestamps_build_activity n f i0 i1)
  have fl: "\<lfloor>duration ex_song_started - position ex_song_started\<rfloor> = 199"
    unfolding n by (rule floor_unique) (simp_all add: double_1e_15_def)
  from p m fl show ?thesis by blast
qed

section \<open>The transport: headers and frames\<close>

text \<open>
  Claim C1, as amended. When \<^verbatim>\<open>recv(8)\<close> delivers a header whose parsed length field is
  0 or greater than 1 MiB (1024 * 1024), \<^verbatim>\<open>_read_packet\<close> does not return the pair
  \<^verbatim>\<open>(None, None)\<close>: it raises \<^verbatim>\<open>ValueError\<close>, which its \<^verbatim>\<open>except\<close> clause does not catch and
  which therefore reaches the caller. This holds regardless of what further bytes the
  socket holds, and nothing after the 8 header bytes is read.
\<close>

theorem invalid_length_raises:
  assumes "sock self = Some s" and "incoming s = Data c # rest" and "8 \<le> length c"
    and "struct_unpack_II (take 8 c) = Some (opcode, len)"
    and "len = 0 \<or> len > 1024 * 1024"
  shows "\<exists>msg. read_packet lib self =
    (Inl (ValueError msg),
     self\<lparr>sock := Some (s\<lparr>incoming := (if length c \<le> 8 then rest else Data (drop 8 c) # rest)\<rparr>)\<rparr>)"
proof -
  let ?s1 = "s\<lparr>incoming := (if length c \<le> 8 then rest else Data (drop 8 c) # rest)\<rparr>"
  have "\<exists>msg. read_packet_body lib s = (Inl (ValueError msg), ?s1)"
    using assms(5) by (auto simp: read_packet_body_header [OF assms(2,3,4)] Let_def)
  then show ?thesis
    using assms(1) by (auto simp: read_packet_def)
qed

text \<open>A header with opcode 1 and length 0, followed by two more bytes and a second chunk.\<close>

theorem invalid_length_raises_witness:
  "struct_unpack_II (take 8 [1, 0, 0, 0, 0, 0, 0, 0, 123, 125]) = Some (1, 0)
   \<and> (\<exists>msg. read_packet ex_lib (ex_reader [Data [1, 0, 0, 0, 0, 0, 0, 0, 123, 125], Data [7]]) =
        (Inl (ValueError msg), ex_reader [Data [123, 125], Data [7]]))"
proof -
  have u: "struct_unpack_II (take 8 [1, 0, 0, 0, 0, 0, 0, 0, 123, 125]) = Some (1, 0)"
    by code_simp
  have s: "sock (ex_reader [Data [1, 0, 0, 0, 0, 0, 0, 0, 123, 125], Data [7]]) =
      Some \<lparr>incoming = [Data [1, 0, 0, 0, 0, 0, 0, 0, 123, 125], Data [7]], sent = [],
            send_fails = False, send_room = None\<rparr>"
    by (simp add: ex_reader_def)
  have i: "incoming \<lparr>incoming = [Data [1, 0, 0, 0, 0, 0, 0, 0, 123, 125], Data [7]], sent = [],
            send_fails = False, send_room = None\<rparr> = Data [1, 0, 0, 0, 0, 0, 0, 0, 123, 125] # [Data [7]]"
    by simp
  show ?thesis
    using u invalid_length_raises [OF s i _ u, of ex_lib] by (simp add: ex_reader_def)
qed

text \<open>Claim C1 as stated fails: on a header with length 0 the call ends in the
  \<^verbatim>\<open>ValueError\<close> of line 135, not in \<^verbatim>\<open>(None, None)\<close>.\<close>

theorem zero_length_header_counterexample:
  "read_packet ex_lib (ex_reader [Data [1, 0, 0, 0, 0, 0, 0, 0]]) =
     (Inl (ValueError ''Invalid packet length''), ex_reader [])"
  by code_simp




section \<open>The presence client\<close>

text \<open>
  Claim C3, as amended. \<^verbatim>\<open>set_activity\<close> never changes \<^verbatim>\<open>connected\<close> or the client id and
  never drops or creates the socket. It returns \<^verbatim>\<open>False\<close> at once, changing nothing, when
  the client is not connected. When the response read has \<^verbatim>\<open>evt\<close> equal to \<^verbatim>\<open>"ERROR"\<close>
  it returns \<^verbatim>\<open>False\<close>, still connected and with its socket. When sending fails it returns
  \<^verbatim>\<open>False\<close>, still connected and with its socket. When the command was sent and a
  \<^verbatim>\<open>recv\<close> of the response raises \<^verbatim>\<open>OSError\<close>, it returns \<^verbatim>\<open>True\<close>: so for the \<^verbatim>\<open>recv\<close>
  of the 8 bytes of the header, and so for the \<^verbatim>\<open>recv\<close> of the payload after a header
  with a length from 1 to 1 MiB.
\<close>

theorem set_activity_connection_state:
  "(\<forall>ok self'. set_activity lib n pid self activity = (ok, self') \<longrightarrow>
       connected self' = connected self \<and> client_id self' = client_id self
       \<and> (sock self' = None \<longleftrightarrow> sock self = None))
   \<and> (\<not> connected self \<or> sock self = None \<longrightarrow>
       set_activity lib n pid self activity = (False, self))
   \<and> (connected self
       \<and> send_packet lib self 1 (command n pid activity) = (Inr (), self1)
       \<and> read_packet lib self1 = (Inr (opcode, Some response), self2)
       \<and> py_get response ''evt'' = Inr (JStr ''ERROR'') \<longrightarrow>
       set_activity lib n pid self activity = (False, self2)
       \<and> connected self2 \<and> sock self2 \<noteq> None)
   \<and> (connected self \<and> sock self \<noteq> None
       \<and> send_packet lib self 1 (command n pid activity) = (Inl e, self1) \<longrightarrow>
       set_activity lib n pid self activity = (False, self1)
       \<and> connected self1 \<and> sock self1 \<noteq> None)
   \<and> (connected self
       \<and> send_packet lib self 1 (command n pid activity) = (Inr (), self1)
       \<and> sock self1 = Some s1 \<and> sock_recv s1 8 = (Inl OSError, s2) \<longrightarrow>
       set_activity lib n pid self activity = (True, self1\<lparr>sock := Some s2\<rparr>))
   \<and> (connected self
       \<and> send_packet lib self 1 (command n pid activity) = (Inr (), self1)
       \<and> sock self1 = Some s1 \<and> sock_recv s1 8 = (Inr header, s3)
       \<and> struct_unpack_II header = Some (op, len) \<and> 0 < len \<and> len \<le> 1024 * 1024
       \<and> sock_recv s3 (nat len) = (Inl OSError, s4) \<longrightarrow>
       set_activity lib n pid self activity = (True, self1\<lparr>sock := Some s4\<rparr>))"
proof (intro conjI allI impI)
  fix ok self'
  assume "set_activity lib n pid self activity = (ok, self')"
  from set_activity_frame [OF this]
  show "connected self' = connected self" and "client_id self' = client_id self"
    and "(sock self' = None) = (sock self = None)"
    by simp_all
next
  assume "\<not> connected self \<or> sock self = None"
  then show "set_activity lib n pid self activity = (False, self)"
    by (auto simp: set_activity_def)
next
  assume a: "connected self
       \<and> send_packet lib self 1 (command n pid activity) = (Inr (), self1)
       \<and> read_packet lib self1 = (Inr (opcode, Some response), self2)
       \<and> py_get response ''evt'' = Inr (JStr ''ERROR'')"
  then have s: "send_packet lib self 1 (command n pid activity) = (Inr (), self1)"
    and r: "read_packet lib self1 = (Inr (opcode, Some response), self2)"
    and c: "connected self" by simp_all
  from a have e: "evt_is (Some response) ''ERROR'' = Inr True"
    by (simp add: evt_is_found)
  obtain s0 where so: "sock self = Some s0"
    using s by (cases "sock self") (simp_all add: send_packet_def)
  show r1: "set_activity lib n pid self activity = (False, self2)"
    using c so s r e by (simp add: set_activity_def set_activity_body_def)
  from set_activity_frame [OF r1] c so
  show "connected self2" and "sock self2 \<noteq> None" by simp_all
next
  assume a: "connected self \<and> sock self \<noteq> None
       \<and> send_packet lib self 1 (command n pid activity) = (Inl e, self1)"
  then show r1: "set_activity lib n pid self activity = (False, self1)"
    by (auto simp: set_activity_def set_activity_body_def)
  from set_activity_frame [OF r1] a
  show "connected self1" and "sock self1 \<noteq> None" by simp_all
next
  assume a: "connected self
       \<and> send_packet lib self 1 (command n pid activity) = (Inr (), self1)
       \<and> sock self1 = Some s1 \<and> sock_recv s1 8 = (Inl OSError, s2)"
  then have s: "send_packet lib self 1 (command n pid activity) = (Inr (), self1)" by simp
  obtain s0 where so: "sock self = Some s0"
    using s by (cases "sock self") (simp_all add: send_packet_def)
  from a have "read_packet lib self1 = (Inr (None, None), self1\<lparr>sock := Some s2\<rparr>)"
    by (simp add: read_packet_def read_packet_body_def)
  then show "set_activity lib n pid self activity = (True, self1\<lparr>sock := Some s2\<rparr>)"
    using a so by (simp add: set_activity_def set_activity_body_def evt_is_def)
next
  assume a: "connected self
       \<and> send_packet lib self 1 (command n pid activity) = (Inr (), self1)
       \<and> sock self1 = Some s1 \<and> sock_recv s1 8 = (Inr header, s3)
       \<and> struct_unpack_II header = Some (op, len) \<and> 0 < len \<and> len \<le> 1024 * 1024
       \<and> sock_recv s3 (nat len) = (Inl OSError, s4)"
  then have s: "send_packet lib self 1 (command n pid activity) = (Inr (), self1)" by simp
  obtain s0 where so: "sock self = Some s0"
    using s by (cases "sock self") (simp_all add: send_packet_def)
  from a have hl: "length header = 8"
    by (simp add: struct_unpack_II_def split: if_splits)
  from a hl have "read_packet_body lib s1 = (Inl OSError, s4)"
    by (simp add: read_packet_body_def)
  with a have "read_packet lib self1 = (Inr (None, None), self1\<lparr>sock := Some s4\<rparr>)"
    by (simp add: read_packet_def)
  then show "set_activity lib n pid self activity = (True, self1\<lparr>sock := Some s4\<rparr>)"
    using a so by (simp add: set_activity_def set_activity_body_def evt_is_def)
qed

text \<open>A peer that answers \<^verbatim>\<open>ERROR\<close>, a socket on which \<^verbatim>\<open>send\<close> fails, a socket on
  which the first \<^verbatim>\<open>recv\<close> fails, a socket on which the \<^verbatim>\<open>recv\<close> after the header of a
  payload of 16 bytes fails, and a client that is not connected.\<close>

theorem set_activity_connection_state_witness:
  \<open>set_activity ex_lib ''n1'' 7 (ex_sent [Data (frame 1 ''{"evt": "ERROR"}'')] []) JNull =
      (False, ex_sent [] ex_clear)
   \<and> connected (ex_sent [] ex_clear)
   \<and> sock (ex_sent [] ex_clear) \<noteq> None
   \<and> set_activity ex_lib ''n1'' 7 ex_broken JNull = (False, ex_broken)
   \<and> set_activity ex_lib ''n1'' 7 (ex_sent [RecvFails] []) JNull =
      (True, ex_sent [] ex_clear)
   \<and> set_activity ex_lib ''n1'' 7
        (ex_sent [Data (le_bytes 4 1 @ le_bytes 4 16), RecvFails] []) JNull =
      (True, ex_sent [] ex_clear)
   \<and> set_activity ex_lib ''n1'' 7 ex_fresh JNull = (False, ex_fresh)\<close>
proof -
  let ?hdr = "le_bytes 4 1 @ le_bytes 4 16"
  let ?cmd = "command ''n1'' 7 JNull"
  let ?out = "ex_clear"
  let ?err = \<open>Data (frame 1 ''{"evt": "ERROR"}'')\<close>
  have s1: "send_packet ex_lib (ex_sent [?err] []) 1 ?cmd = (Inr (), ex_sent [?err] ?out)"
    by code_simp
  have r1: "read_packet ex_lib (ex_sent [?err] ?out) =
      (Inr (Some 1, Some (JDict [(''evt'', JStr ''ERROR'')])), ex_sent [] ?out)"
    by code_simp
  have g1: "py_get (JDict [(''evt'', JStr ''ERROR'')]) ''evt'' = Inr (JStr ''ERROR'')"
    by simp
  have c1: "connected (ex_sent [?err] [])" by (simp add: ex_sent_def)
  have s2: "send_packet ex_lib ex_broken 1 ?cmd = (Inl (RuntimeError ''Failed to send packet''), ex_broken)"
    by code_simp
  have c2: "connected ex_broken \<and> sock ex_broken \<noteq> None" by (simp add: ex_broken_def)
  have s3: "send_packet ex_lib (ex_sent [RecvFails] []) 1 ?cmd = (Inr (), ex_sent [RecvFails] ?out)"
    by code_simp
  have c3: "connected (ex_sent [RecvFails] [])" by (simp add: ex_sent_def)
  have k3: "sock (ex_sent [RecvFails] ?out) =
      Some \<lparr>incoming = [RecvFails], sent = ?out, send_fails = False, send_room = None\<rparr>"
    by (simp add: ex_sent_def)
  have v3: "sock_recv \<lparr>incoming = [RecvFails], sent = ?out, send_fails = False, send_room = None\<rparr> 8 =
      (Inl OSError, \<lparr>incoming = [], sent = ?out, send_fails = False, send_room = None\<rparr>)"
    by (simp add: sock_recv_def)
  have e3: "(ex_sent [RecvFails] ?out)\<lparr>sock := Some \<lparr>incoming = [], sent = ?out, send_fails = False, send_room = None\<rparr>\<rparr>
      = ex_sent [] ?out"
    by (simp add: ex_sent_def)
  have a: "set_activity ex_lib ''n1'' 7 (ex_sent [?err] []) JNull = (False, ex_sent [] ?out)
      \<and> connected (ex_sent [] ?out) \<and> sock (ex_sent [] ?out) \<noteq> None"
    using set_activity_connection_state
      [of ex_lib "''n1''" 7 "ex_sent [?err] []" JNull "ex_sent [?err] ?out" "Some 1"
          "JDict [(''evt'', JStr ''ERROR'')]" "ex_sent [] ?out"]
      c1 s1 r1 g1 by blast
  have b: "set_activity ex_lib ''n1'' 7 ex_broken JNull = (False, ex_broken)"
    using set_activity_connection_state
      [of ex_lib "''n1''" 7 ex_broken JNull _ _ _ _ "RuntimeError ''Failed to send packet''"]
      c2 s2 by blast
  have c: "set_activity ex_lib ''n1'' 7 (ex_sent [RecvFails] []) JNull = (True, ex_sent [] ?out)"
    using set_activity_connection_state
      [of ex_lib "''n1''" 7 "ex_sent [RecvFails] []" JNull "ex_sent [RecvFails] ?out" _ _ _ _
          "\<lparr>incoming = [RecvFails], sent = ?out, send_fails = False, send_room = None\<rparr>"
          "\<lparr>incoming = [], sent = ?out, send_fails = False, send_room = None\<rparr>"]
      c3 s3 k3 v3 e3 by metis
  have s4: "send_packet ex_lib (ex_sent [Data ?hdr, RecvFails] []) 1 ?cmd =
      (Inr (), ex_sent [Data ?hdr, RecvFails] ?out)"
    by code_simp
  have c4: "connected (ex_sent [Data ?hdr, RecvFails] [])" by (simp add: ex_sent_def)
  have k4: "sock (ex_sent [Data ?hdr, RecvFails] ?out) =
      Some \<lparr>incoming = [Data ?hdr, RecvFails], sent = ?out, send_fails = False, send_room = None\<rparr>"
    by (simp add: ex_sent_def)
  have v4: "sock_recv \<lparr>incoming = [Data ?hdr, RecvFails], sent = ?out, send_fails = False,
        send_room = None\<rparr> 8 =
      (Inr ?hdr, \<lparr>incoming = [RecvFails], sent = ?out, send_fails = False, send_room = None\<rparr>)"
    by (simp add: sock_recv_def length_le_bytes)
  have u4: "struct_unpack_II ?hdr = Some (1, 16)"
    by code_simp
  have n4: "(0::int) < 16 \<and> (16::int) \<le> 1024 * 1024" by simp
  have w4: "sock_recv \<lparr>incoming = [RecvFails], sent = ?out, send_fails = False, send_room = None\<rparr>
        (nat 16) =
      (Inl OSError, \<lparr>incoming = [], sent = ?out, send_fails = False, send_room = None\<rparr>)"
    by (simp add: sock_recv_def)
  have e4: "(ex_sent [Data ?hdr, RecvFails] ?out)\<lparr>sock := Some \<lparr>incoming = [], sent = ?out, send_fails = False, send_room = None\<rparr>\<rparr>
      = ex_sent [] ?out"
    by (simp add: ex_sent_def)
  have f: "set_activity ex_lib ''n1'' 7 (ex_sent [Data ?hdr, RecvFails] []) JNull =
      (True, ex_sent [] ?out)"
    using set_activity_connection_state
      [of ex_lib "''n1''" 7 "ex_sent [Data ?hdr, RecvFails] []" JNull
          "ex_sent [Data ?hdr, RecvFails] ?out" _ _ _ _
          "\<lparr>incoming = [Data ?hdr, RecvFails], sent = ?out, send_fails = False, send_room = None\<rparr>"
          _ ?hdr
          "\<lparr>incoming = [RecvFails], sent = ?out, send_fails = False, send_room = None\<rparr>"
          1 16
          "\<lparr>incoming = [], sent = ?out, send_fails = False, send_room = None\<rparr>"]
      c4 s4 k4 v4 u4 n4 w4 e4 by metis
  have nc: "\<not> connected ex_fresh" by (simp add: ex_fresh_def)
  have d: "set_activity ex_lib ''n1'' 7 ex_fresh JNull = (False, ex_fresh)"
    using set_activity_connection_state [of ex_lib "''n1''" 7 ex_fresh JNull] nc by blast
  from a b c f d show ?thesis by blast
qed

text \<open>Claim C3 as stated fails: with the command sent and the \<^verbatim>\<open>recv\<close> of the response
  raising \<^verbatim>\<open>OSError\<close>, \<^verbatim>\<open>set_activity\<close> returns \<^verbatim>\<open>True\<close>, not \<^verbatim>\<open>False\<close>.\<close>

theorem read_failure_counterexample:
  "connected (ex_sent [RecvFails] [])
   \<and> fst (sock_recv \<lparr>incoming = [RecvFails], sent = ex_clear, send_fails = False, send_room = None\<rparr> 8)
       = Inl OSError
   \<and> set_activity ex_lib ''n1'' 7 (ex_sent [RecvFails] []) JNull =
       (True, ex_sent [] ex_clear)"
  by code_simp

text \<open>
  Claim C2. Let the client be disconnected and let \<open>tmpdir\<close> be the runtime directory
  (\<^verbatim>\<open>TMPDIR\<close>, or \<^verbatim>\<open>/tmp/\<close>). If the directory does not exist, \<^verbatim>\<open>connect\<close> returns
  \<^verbatim>\<open>False\<close> and changes nothing. A candidate whose path does not exist is skipped
  without any effect. If candidate \<open>k < 10\<close> answers the handshake with \<^verbatim>\<open>READY\<close> and no
  candidate before it does, \<^verbatim>\<open>connect\<close> returns \<^verbatim>\<open>True\<close> with the client connected on
  the socket of candidate \<open>k\<close>, and the result is the same in every world that agrees on
  the candidates \<open>0..k\<close>: the candidates after \<open>k\<close> are not tried. If none of the
  candidates 0 to 9 answers so, \<^verbatim>\<open>connect\<close> returns \<^verbatim>\<open>False\<close> and the client stays
  disconnected. \<^verbatim>\<open>connect\<close> is a total function with a Boolean result: the two \<^verbatim>\<open>except\<close>
  clauses of its loop catch every exception.
\<close>

theorem connect_probes_in_order:
  assumes "\<not> connected self"
    and "tmpdir = (case environ_TMPDIR env of None \<Rightarrow> ''/tmp/'' | Some d \<Rightarrow> d)"
  shows "(\<not> path_exists env tmpdir \<longrightarrow> connect lib env self = (False, self))
    \<and> (\<forall>i. \<not> path_exists env (socket_path tmpdir i) \<longrightarrow>
          candidate lib env tmpdir self i = None
          \<and> connect_try lib env tmpdir self i = (Inr False, self))
    \<and> (\<forall>k self'. path_exists env tmpdir \<and> k < 10
          \<and> candidate lib env tmpdir self k = Some self'
          \<and> (\<forall>j<k. candidate lib env tmpdir self j = None) \<longrightarrow>
          connect lib env self = (True, self') \<and> connected self' \<and> sock self' \<noteq> None
          \<and> (\<forall>env'. environ_TMPDIR env' = environ_TMPDIR env
                \<and> path_exists env' tmpdir
                \<and> (\<forall>j\<le>k. path_exists env' (socket_path tmpdir j) = path_exists env (socket_path tmpdir j)
                       \<and> unix_connect env' (socket_path tmpdir j) = unix_connect env (socket_path tmpdir j))
                \<longrightarrow> connect lib env' self = (True, self')))
    \<and> (path_exists env tmpdir \<and> (\<forall>j<10. candidate lib env tmpdir self j = None) \<longrightarrow>
          fst (connect lib env self) = False \<and> \<not> connected (snd (connect lib env self)))"
proof (intro conjI allI impI)
  assume "\<not> path_exists env tmpdir"
  with assms show "connect lib env self = (False, self)"
    by (simp add: connect_def)
next
  fix i
  assume "\<not> path_exists env (socket_path tmpdir i)"
  then show "candidate lib env tmpdir self i = None"
    and "connect_try lib env tmpdir self i = (Inr False, self)"
    by (simp_all add: candidate_def connect_try_def)
next
  fix k self'
  assume a: "path_exists env tmpdir \<and> k < 10
          \<and> candidate lib env tmpdir self k = Some self'
          \<and> (\<forall>j<k. candidate lib env tmpdir self j = None)"
  have first: "connect lib e self = (True, self')"
    if t: "environ_TMPDIR e = environ_TMPDIR env" and p: "path_exists e tmpdir"
      and c: "candidate lib e tmpdir self k = Some self'"
      and n: "\<forall>j<k. candidate lib e tmpdir self j = None" for e
  proof -
    from n have pre: "\<forall>j\<in>set [0..<k]. candidate lib e tmpdir self j = None" by simp
    from a have "k < 10" by simp
    then have split: "[0..<10] = [0..<k] @ k # [Suc k..<10]"
      by (rule upt_split)
    have "connect_loop lib e tmpdir (self\<lparr>sock := sock self\<rparr>) ([0..<k] @ k # [Suc k..<10]) = (True, self')"
      by (rule connect_loop_first [OF pre c])
    moreover have "self\<lparr>sock := sock self\<rparr> = self" by simp
    ultimately have "connect_loop lib e tmpdir self [0..<10] = (True, self')"
      by (simp only: split [symmetric])
    with assms t p show ?thesis
      by (simp add: connect_def)
  qed
  from a show "connect lib env self = (True, self')"
    by (intro first) simp_all
  from a candidate_connected [of lib env tmpdir self k self']
  show "connected self'" and "sock self' \<noteq> None" by simp_all
  fix env' :: os_env
  assume b: "environ_TMPDIR env' = environ_TMPDIR env
                \<and> path_exists env' tmpdir
                \<and> (\<forall>j\<le>k. path_exists env' (socket_path tmpdir j) = path_exists env (socket_path tmpdir j)
                       \<and> unix_connect env' (socket_path tmpdir j) = unix_connect env (socket_path tmpdir j))"
  have same: "\<forall>j\<le>k. candidate lib env' tmpdir self j = candidate lib env tmpdir self j"
  proof (intro allI impI)
    fix j
    assume "j \<le> k"
    with b show "candidate lib env' tmpdir self j = candidate lib env tmpdir self j"
      by (intro candidate_agree) simp_all
  qed
  show "connect lib env' self = (True, self')"
  proof (rule first)
    show "environ_TMPDIR env' = environ_TMPDIR env" and "path_exists env' tmpdir"
      using b by simp_all
    show "candidate lib env' tmpdir self k = Some self'"
      using a same by simp
    show "\<forall>j<k. candidate lib env' tmpdir self j = None"
      using a same by simp
  qed
next
  assume a: "path_exists env tmpdir \<and> (\<forall>j<10. candidate lib env tmpdir self j = None)"
  then have "\<forall>j\<in>set [0..<10]. candidate lib env tmpdir self j = None" by simp
  from connect_loop_none [OF this, of "sock self"] obtain x' where
    "connect_loop lib env tmpdir self [0..<10] = (False, self\<lparr>sock := x'\<rparr>)"
    by auto
  with a assms have c: "connect lib env self = (False, self\<lparr>sock := x'\<rparr>)"
    by (simp add: connect_def)
  from c show "fst (connect lib env self) = False" by simp
  from c assms(1) show "\<not> connected (snd (connect lib env self))" by simp
qed

text \<open>
  In \<^verbatim>\<open>/tmp/\<close> the paths \<^verbatim>\<open>discord-ipc-2\<close> (which refuses the connection) and
  \<^verbatim>\<open>discord-ipc-4\<close> (which answers \<^verbatim>\<open>READY\<close>) exist; the same with a further
  \<^verbatim>\<open>discord-ipc-7\<close> that would answer too; a runtime directory without any
  \<^verbatim>\<open>discord-ipc\<close> path; and a runtime directory that does not exist.
\<close>

theorem connect_probes_in_order_witness:
  "\<not> connected ex_fresh
   \<and> socket_path ''/tmp/'' 4 = ''/tmp/discord-ipc-4''
   \<and> candidate ex_lib ex_env ''/tmp/'' ex_fresh 2 = None
   \<and> candidate ex_lib ex_env ''/tmp/'' ex_fresh 4 = Some (ex_sent [] ex_wire)
   \<and> connect ex_lib ex_env ex_fresh = (True, ex_sent [] ex_wire)
   \<and> connected (ex_sent [] ex_wire)
   \<and> connect ex_lib ex_env_more ex_fresh = (True, ex_sent [] ex_wire)
   \<and> connect ex_lib ex_env_empty ex_fresh = (False, ex_fresh)
   \<and> connect ex_lib ex_env_nodir ex_fresh = (False, ex_fresh)"
proof -
  have nc: "\<not> connected ex_fresh" by (simp add: ex_fresh_def)
  have t: "''/tmp/'' = (case environ_TMPDIR ex_env of None \<Rightarrow> ''/tmp/'' | Some d \<Rightarrow> d)"
    by (simp add: ex_env_def)
  have p: "path_exists ex_env ''/tmp/''" by (simp add: ex_env_def)
  have sp4: "socket_path ''/tmp/'' 4 = ''/tmp/discord-ipc-4''" by code_simp
  have c0: "candidate ex_lib ex_env ''/tmp/'' ex_fresh 0 = None" by code_simp
  have c1: "candidate ex_lib ex_env ''/tmp/'' ex_fresh 1 = None" by code_simp
  have c2: "candidate ex_lib ex_env ''/tmp/'' ex_fresh 2 = None" by code_simp
  have c3: "candidate ex_lib ex_env ''/tmp/'' ex_fresh 3 = None" by code_simp
  have c4: "candidate ex_lib ex_env ''/tmp/'' ex_fresh 4 = Some (ex_sent [] ex_wire)" by code_simp
  have lt: "j = 0 \<or> j = 1 \<or> j = 2 \<or> j = 3" if "j < 4" for j :: nat
    using that by arith
  have before: "\<forall>j<4. candidate ex_lib ex_env ''/tmp/'' ex_fresh j = None"
    using c0 c1 c2 c3 lt by blast
  have k: "(4::nat) < 10" by simp
  have a: "connect ex_lib ex_env ex_fresh = (True, ex_sent [] ex_wire)
      \<and> connected (ex_sent [] ex_wire)"
    using connect_probes_in_order [OF nc t, of ex_lib] p c4 before k by blast
  have e1: "environ_TMPDIR ex_env_more = environ_TMPDIR ex_env"
    by (simp add: ex_env_more_def ex_env_def)
  have e2: "path_exists ex_env_more ''/tmp/''" by (simp add: ex_env_more_def)
  have sp: "socket_path ''/tmp/'' 0 = ''/tmp/discord-ipc-0''"
    "socket_path ''/tmp/'' 1 = ''/tmp/discord-ipc-1''"
    "socket_path ''/tmp/'' 2 = ''/tmp/discord-ipc-2''"
    "socket_path ''/tmp/'' 3 = ''/tmp/discord-ipc-3''"
    "socket_path ''/tmp/'' 4 = ''/tmp/discord-ipc-4''"
    by code_simp+
  have le: "j = 0 \<or> j = 1 \<or> j = 2 \<or> j = 3 \<or> j = 4" if "j \<le> 4" for j :: nat
    using that by arith
  let ?same = "\<lambda>j. path_exists ex_env_more (socket_path ''/tmp/'' j) = path_exists ex_env (socket_path ''/tmp/'' j)
      \<and> unix_connect ex_env_more (socket_path ''/tmp/'' j) = unix_connect ex_env (socket_path ''/tmp/'' j)"
  have s0: "?same 0" unfolding sp ex_env_more_def ex_env_def by simp
  have s1: "?same 1" unfolding sp ex_env_more_def ex_env_def by simp
  have s2: "?same 2" unfolding sp ex_env_more_def ex_env_def by simp
  have s3: "?same 3" unfolding sp ex_env_more_def ex_env_def by simp
  have s4: "?same 4" unfolding sp ex_env_more_def ex_env_def by simp
  have same: "?same j" if "j \<le> 4" for j
    using le [OF that] s0 s1 s2 s3 s4 by blast
  then have agree: "\<forall>j\<le>4. path_exists ex_env_more (socket_path ''/tmp/'' j) = path_exists ex_env (socket_path ''/tmp/'' j)
      \<and> unix_connect ex_env_more (socket_path ''/tmp/'' j) = unix_connect ex_env (socket_path ''/tmp/'' j)"
    by blast
  have more: "connect ex_lib ex_env_more ex_fresh = (True, ex_sent [] ex_wire)"
    using connect_probes_in_order [OF nc t, of ex_lib] p k c4 before e1 e2 agree by blast
  have t2: "''/run/user/501'' =
      (case environ_TMPDIR ex_env_empty of None \<Rightarrow> ''/tmp/'' | Some d \<Rightarrow> d)"
    by (simp add: ex_env_empty_def)
  have p2: "path_exists ex_env_empty ''/run/user/501''" by (simp add: ex_env_empty_def)
  have m2: "\<not> path_exists ex_env_empty (socket_path ''/run/user/501'' i)" for i
    by (simp add: ex_env_empty_def socket_path_longer)
  have n2: "\<forall>j<10. candidate ex_lib ex_env_empty ''/run/user/501'' ex_fresh j = None"
    using connect_probes_in_order [OF nc t2, of ex_lib] m2 by blast
  have f2: "fst (connect ex_lib ex_env_empty ex_fresh) = False"
    using connect_probes_in_order [OF nc t2, of ex_lib] p2 n2 by blast
  have v2: "connect ex_lib ex_env_empty ex_fresh = (False, ex_fresh)"
    by code_simp
  have t3: "''/nonexistent'' =
      (case environ_TMPDIR ex_env_nodir of None \<Rightarrow> ''/tmp/'' | Some d \<Rightarrow> d)"
    by (simp add: ex_env_nodir_def)
  have p3: "\<not> path_exists ex_env_nodir ''/nonexistent''" by (simp add: ex_env_nodir_def)
  have v3: "connect ex_lib ex_env_nodir ex_fresh = (False, ex_fresh)"
    using connect_probes_in_order [OF nc t3, of ex_lib] p3 by blast
  from nc sp4 c2 c4 a more f2 v2 v3 show ?thesis by blast
qed

section \<open>The canonical URL lookup\<close>

text \<open>
  Claim C10, as amended. \<^verbatim>\<open>get_apple_music_url\<close> never returns the empty string (and its
  result is always a string). When the title and the artist are not both blank, the
  search for \<open>title artist\<close> (limit 5) answers with status 200 and a list of results,
  and \<open>r\<close> is the first result that both matches the query (artist and title each a
  case-insensitive substring of the other side's, in either direction) and carries a
  non-empty string \<^verbatim>\<open>trackViewUrl\<close>, every earlier result being a \<^verbatim>\<open>dict\<close> with string
  names, then the function returns the link of \<open>r\<close> with \<^verbatim>\<open>itunes.apple.com\<close> replaced by
  \<^verbatim>\<open>music.apple.com\<close>. When no result of the answer both matches and carries such a link
  (also when the request fails), it returns the fallback
  \<^verbatim>\<open>https://music.apple.com/search?term=\<close> followed by the quoted, stripped
  \<open>artist title\<close>.
\<close>

theorem apple_music_url_lookup:
  "get_apple_music_url lib f a t al \<noteq> []
   \<and> (\<not> (strip a = [] \<and> strip t = [])
      \<and> f (''https://itunes.apple.com/search?term='' @ url_quote lib (strip (t @ '' '' @ a))
            @ ''&media=music&entity=song&limit=5'') = Response 200 (Some data)
      \<and> py_get data ''results'' = Inr (JList (pre @ r # post))
      \<and> (\<forall>x\<in>set pre. result_names x \<noteq> None
                       \<and> \<not> (result_matches a t x \<and> result_link x \<noteq> None))
      \<and> result_matches a t r \<and> result_link r = Some u
      \<longrightarrow> get_apple_music_url lib f a t al =
            replace ''itunes.apple.com'' ''music.apple.com'' u)
   \<and> (\<not> (strip a = [] \<and> strip t = [])
      \<and> (\<forall>data rs.
            f (''https://itunes.apple.com/search?term='' @ url_quote lib (strip (t @ '' '' @ a))
               @ ''&media=music&entity=song&limit=5'') = Response 200 (Some data)
            \<and> py_get data ''results'' = Inr (JList rs)
            \<longrightarrow> (\<forall>x\<in>set rs. \<not> (result_matches a t x \<and> result_link x \<noteq> None)))
      \<longrightarrow> get_apple_music_url lib f a t al =
            ''https://music.apple.com/search?term='' @ url_quote lib (strip (a @ '' '' @ t)))"
proof (intro conjI impI)
  show "get_apple_music_url lib f a t al \<noteq> []"
  proof (cases "strip a = [] \<and> strip t = []")
    case True
    then show ?thesis by (simp add: get_apple_music_url_def)
  next
    case False
    note q = query_nonblank [OF False]
    show ?thesis
    proof (cases "\<exists>v. search_itunes lib f (strip (t @ '' '' @ a)) a t = Inr (Some v)")
      case True
      then obtain v where v: "search_itunes lib f (strip (t @ '' '' @ a)) a t = Inr (Some v)"
        by blast
      from search_itunes_found [OF v] match_results_found have "v \<noteq> []" by blast
      with False q v show ?thesis by (simp add: get_apple_music_url_def)
    next
      case none: False
      then have "get_apple_music_url lib f a t al = fallback_url lib a t"
        using False q
        by (auto simp: get_apple_music_url_def split: sum.splits option.splits)
      then show ?thesis by (simp add: fallback_url_nonempty)
    qed
  qed
next
  assume h: "\<not> (strip a = [] \<and> strip t = [])
      \<and> f (''https://itunes.apple.com/search?term='' @ url_quote lib (strip (t @ '' '' @ a))
            @ ''&media=music&entity=song&limit=5'') = Response 200 (Some data)
      \<and> py_get data ''results'' = Inr (JList (pre @ r # post))
      \<and> (\<forall>x\<in>set pre. result_names x \<noteq> None
                       \<and> \<not> (result_matches a t x \<and> result_link x \<noteq> None))
      \<and> result_matches a t r \<and> result_link r = Some u"
  then have nb: "\<not> (strip a = [] \<and> strip t = [])"
    and fr: "f (''https://itunes.apple.com/search?term='' @ url_quote lib (strip (t @ '' '' @ a))
            @ ''&media=music&entity=song&limit=5'') = Response 200 (Some data)"
    and dr: "py_get data ''results'' = Inr (JList (pre @ r # post))"
    and pr: "\<forall>x\<in>set pre. result_names x \<noteq> None
                       \<and> \<not> (result_matches a t x \<and> result_link x \<noteq> None)"
    and mr: "result_matches a t r" and lr: "result_link r = Some u"
    by blast+
  note q = query_nonblank [OF nb]
  have "search_itunes lib f (strip (t @ '' '' @ a)) a t =
      match_results a t (pre @ r # post)"
    by (rule search_itunes_list [where f = f and lib = lib, OF fr dr])
  also have "\<dots> = Inr (Some (replace ''itunes.apple.com'' ''music.apple.com'' u))"
    by (rule match_results_first [OF pr mr lr])
  finally show "get_apple_music_url lib f a t al =
      replace ''itunes.apple.com'' ''music.apple.com'' u"
    using nb q by (auto simp: get_apple_music_url_def)
next
  assume h: "\<not> (strip a = [] \<and> strip t = [])
      \<and> (\<forall>data rs.
            f (''https://itunes.apple.com/search?term='' @ url_quote lib (strip (t @ '' '' @ a))
               @ ''&media=music&entity=song&limit=5'') = Response 200 (Some data)
            \<and> py_get data ''results'' = Inr (JList rs)
            \<longrightarrow> (\<forall>x\<in>set rs. \<not> (result_matches a t x \<and> result_link x \<noteq> None)))"
  then have nb: "\<not> (strip a = [] \<and> strip t = [])" by simp
  note q = query_nonblank [OF nb]
  have "search_itunes lib f (strip (t @ '' '' @ a)) a t \<noteq> Inr (Some v)" for v
  proof
    assume v: "search_itunes lib f (strip (t @ '' '' @ a)) a t = Inr (Some v)"
    from search_itunes_found [OF v] obtain data rs where
      "f (''https://itunes.apple.com/search?term='' @ url_quote lib (strip (t @ '' '' @ a))
               @ ''&media=music&entity=song&limit=5'') = Response 200 (Some data)"
      and "py_get data ''results'' = Inr (JList rs)"
      and m: "match_results a t rs = Inr (Some v)"
      by blast
    with h have "\<forall>x\<in>set rs. \<not> (result_matches a t x \<and> result_link x \<noteq> None)"
      by blast
    with match_results_found [OF m] show False by blast
  qed
  then have "get_apple_music_url lib f a t al = fallback_url lib a t"
    using nb q by (auto simp: get_apple_music_url_def split: sum.splits option.splits)
  with q show "get_apple_music_url lib f a t al =
      ''https://music.apple.com/search?term='' @ url_quote lib (strip (a @ '' '' @ t))"
    by (simp add: fallback_url_def Let_def)
qed

text \<open>
  The query "Song A" by "Artist B": results 1 and 2 do not match and result 3 does, so the
  link of result 3 is returned; with results 1 and 2 alone the fallback is returned.
\<close>

theorem apple_music_url_lookup_witness:
  "\<not> result_matches ''Artist B'' ''Song A'' ex_r1
   \<and> \<not> result_matches ''Artist B'' ''Song A'' ex_r2
   \<and> result_matches ''Artist B'' ''Song A'' ex_r3
   \<and> get_apple_music_url ex_lib (ex_fetch [ex_r1, ex_r2, ex_r3]) ''Artist B'' ''Song A'' ''Album C''
       = ''https://music.apple.com/us/album/3?i=3''
   \<and> get_apple_music_url ex_lib (ex_fetch [ex_r1, ex_r2]) ''Artist B'' ''Song A'' ''Album C''
       = ''https://music.apple.com/search?term=Artist%20B%20Song%20A''
   \<and> get_apple_music_url ex_lib (ex_fetch [ex_r1, ex_r2]) ''Artist B'' ''Song A'' ''Album C'' \<noteq> []"
proof -
  let ?a = "''Artist B''" and ?t = "''Song A''"
  let ?url = "''https://itunes.apple.com/search?term='' @ url_quote ex_lib (strip (?t @ '' '' @ ?a))
               @ ''&media=music&entity=song&limit=5''"
  have nb: "\<not> (strip ?a = [] \<and> strip ?t = [])" by code_simp
  have u: "?url = ''https://itunes.apple.com/search?term=Song%20A%20Artist%20B&media=music&entity=song&limit=5''"
    by code_simp
  have f: "ex_fetch rs ?url =
      Response 200 (Some (JDict [(''resultCount'', JInt (int (length rs))), (''results'', JList rs)]))"
    for rs
    unfolding u by (simp add: ex_fetch_def)
  have d: "py_get (JDict [(''resultCount'', JInt n), (''results'', JList rs)]) ''results'' = Inr (JList rs)"
    for n rs
    by simp
  have n1: "result_names ex_r1 \<noteq> None" and n2: "result_names ex_r2 \<noteq> None" by code_simp+
  have m1: "\<not> result_matches ?a ?t ex_r1" by code_simp
  have m2: "\<not> result_matches ?a ?t ex_r2" by code_simp
  have m3: "result_matches ?a ?t ex_r3" by code_simp
  have l3: "result_link ex_r3 = Some ''https://itunes.apple.com/us/album/3?i=3''" by code_simp
  have rw: "replace ''itunes.apple.com'' ''music.apple.com'' ''https://itunes.apple.com/us/album/3?i=3''
      = ''https://music.apple.com/us/album/3?i=3''"
    by code_simp
  have fb: "''https://music.apple.com/search?term='' @ url_quote ex_lib (strip (?a @ '' '' @ ?t))
      = ''https://music.apple.com/search?term=Artist%20B%20Song%20A''"
    by code_simp
  have pre: "\<forall>x\<in>set [ex_r1, ex_r2]. result_names x \<noteq> None
      \<and> \<not> (result_matches ?a ?t x \<and> result_link x \<noteq> None)"
    using n1 n2 m1 m2 by simp
  have d3: "py_get (JDict [(''resultCount'', JInt (int (length [ex_r1, ex_r2, ex_r3]))),
                (''results'', JList [ex_r1, ex_r2, ex_r3])]) ''results''
      = Inr (JList ([ex_r1, ex_r2] @ ex_r3 # []))"
    by simp
  have found: "get_apple_music_url ex_lib (ex_fetch [ex_r1, ex_r2, ex_r3]) ?a ?t ''Album C''
      = ''https://music.apple.com/us/album/3?i=3''"
    using apple_music_url_lookup
      [of ex_lib "ex_fetch [ex_r1, ex_r2, ex_r3]" ?a ?t "''Album C''"
          "JDict [(''resultCount'', JInt (int (length [ex_r1, ex_r2, ex_r3]))),
                  (''results'', JList [ex_r1, ex_r2, ex_r3])]"
          "[ex_r1, ex_r2]" ex_r3 "[]" "''https://itunes.apple.com/us/album/3?i=3''"]
      nb f [of "[ex_r1, ex_r2, ex_r3]"] d3 pre m3 l3 rw
    by metis
  have none: "\<forall>data rs. ex_fetch [ex_r1, ex_r2] ?url = Response 200 (Some data)
      \<and> py_get data ''results'' = Inr (JList rs)
      \<longrightarrow> (\<forall>x\<in>set rs. \<not> (result_matches ?a ?t x \<and> result_link x \<noteq> None))"
  proof (intro allI impI)
    fix data rs
    assume h: "ex_fetch [ex_r1, ex_r2] ?url = Response 200 (Some data)
      \<and> py_get data ''results'' = Inr (JList rs)"
    then have "data = JDict [(''resultCount'', JInt (int (length [ex_r1, ex_r2]))),
        (''results'', JList [ex_r1, ex_r2])]"
      unfolding f by simp
    with h have "rs = [ex_r1, ex_r2]" by simp
    with m1 m2 show "\<forall>x\<in>set rs. \<not> (result_matches ?a ?t x \<and> result_link x \<noteq> None)"
      by simp
  qed
  have fallback: "get_apple_music_url ex_lib (ex_fetch [ex_r1, ex_r2]) ?a ?t ''Album C''
      = ''https://music.apple.com/search?term=Artist%20B%20Song%20A''"
    using apple_music_url_lookup [of ex_lib "ex_fetch [ex_r1, ex_r2]" ?a ?t "''Album C''"]
      nb none fb
    by metis
  have nonempty: "get_apple_music_url ex_lib (ex_fetch [ex_r1, ex_r2]) ?a ?t ''Album C'' \<noteq> []"
    using apple_music_url_lookup [of ex_lib "ex_fetch [ex_r1, ex_r2]" ?a ?t "''Album C''"]
    by blast
  from m1 m2 m3 found fallback nonempty show ?thesis by blast
qed

text \<open>
  Claim C10 as stated fails. When the first matching result has no \<^verbatim>\<open>trackViewUrl\<close>, the
  guard of line 268 passes it over and the link of a later matching result is returned;
  and when result 1 has the \<^verbatim>\<open>artistName\<close> \<^verbatim>\<open>null\<close> (it does not match), the
  \<^verbatim>\<open>AttributeError\<close> of line 257 ends the loop in the fallback although result 3 matches.
\<close>

theorem first_match_without_link_counterexample:
  "result_matches ''Artist B'' ''Song A'' ex_no_link
   \<and> result_matches ''Artist B'' ''Song A'' ex_r3
   \<and> get_apple_music_url ex_lib (ex_fetch [ex_no_link, ex_r3]) ''Artist B'' ''Song A'' ''Album C''
       = ''https://music.apple.com/us/album/3?i=3''
   \<and> \<not> result_matches ''Artist B'' ''Song A'' ex_null_artist
   \<and> \<not> result_matches ''Artist B'' ''Song A'' ex_r2
   \<and> get_apple_music_url ex_lib (ex_fetch [ex_null_artist, ex_r2, ex_r3]) ''Artist B'' ''Song A''
         ''Album C''
       = ''https://music.apple.com/search?term=Artist%20B%20Song%20A''"
  by code_simp

end
